theory Spec2Isabelle
  imports Main "HOL-Library.Sublist"
begin

section \<open>Enumerations (api/models/enums.py)\<close>

datatype seat_type = GENERAL_FIRST | GENERAL_ONLY | SPECIAL_FIRST | SPECIAL_ONLY

datatype job_status = PENDING | RUNNING | SUCCESS | FAILED | CANCELLED

section \<open>Normalised trains (api/models/schemas.py, RailService._normalize_train)\<close>

text \<open>
  A searched train is the dictionary that \<open>RailService._normalize_train\<close> builds. The
  booking loop reads the three availability flags, and the name, number and departure
  time for the \<open>RESERVE_ATTEMPT\<close> event.
\<close>

record train =
  train_name :: string
  train_number :: string
  dep_time :: string
  general_seat_available :: bool
  special_seat_available :: bool
  standby_available :: bool

section \<open>Seat-type policy (JobService._run_booking_loop, lines 341-361)\<close>

text \<open>
  The source sets \<open>can_reserve = False\<close> and then runs four \<open>if\<close> statements in
  sequence, each reading the value left by the previous one. The model threads the
  variable through the same four statements.
\<close>

definition can_reserve :: "seat_type \<Rightarrow> train \<Rightarrow> bool" where
  "can_reserve st tr =
     (let c0 = False;
          c1 = (if st \<in> {GENERAL_FIRST, GENERAL_ONLY} then general_seat_available tr else c0);
          c2 = (if \<not> c1 \<and> st \<in> {SPECIAL_FIRST, SPECIAL_ONLY} then special_seat_available tr else c1);
          c3 = (if \<not> c2 \<and> st = GENERAL_FIRST then special_seat_available tr else c2);
          c4 = (if \<not> c3 \<and> st = SPECIAL_FIRST then general_seat_available tr else c3)
      in c4)"

text \<open>
  \<open>can_standby\<close> starts as \<open>False\<close> and is assigned the train's standby flag only when
  no direct seat is reservable and the job enabled standby.
\<close>

definition can_standby :: "seat_type \<Rightarrow> bool \<Rightarrow> train \<Rightarrow> bool" where
  "can_standby st use_sb tr =
     (if \<not> can_reserve st tr \<and> use_sb then standby_available tr else False)"

text \<open>\<open>is_standby = not can_reserve and can_standby\<close>.\<close>

definition is_standby :: "seat_type \<Rightarrow> bool \<Rightarrow> train \<Rightarrow> bool" where
  "is_standby st use_sb tr = (\<not> can_reserve st tr \<and> can_standby st use_sb tr)"

section \<open>Properties of the seat-type policy\<close>

text \<open>
  C1. Reservability under the seat-type policy: \<open>GENERAL_ONLY\<close> is reservable exactly
  when the train has a general seat, \<open>SPECIAL_ONLY\<close> exactly when it has a special seat,
  \<open>GENERAL_FIRST\<close> when it has a general seat or else a special one, \<open>SPECIAL_FIRST\<close>
  when it has a special seat or else a general one. In particular a train with only
  special seats is reservable for \<open>GENERAL_FIRST\<close> and not for \<open>GENERAL_ONLY\<close>.
\<close>

theorem can_reserve_policy:
  "can_reserve GENERAL_ONLY tr = general_seat_available tr
   \<and> can_reserve SPECIAL_ONLY tr = special_seat_available tr
   \<and> can_reserve GENERAL_FIRST tr =
       (if general_seat_available tr then True else special_seat_available tr)
   \<and> can_reserve SPECIAL_FIRST tr =
       (if special_seat_available tr then True else general_seat_available tr)
   \<and> can_reserve GENERAL_FIRST
        (tr\<lparr>general_seat_available := False, special_seat_available := True\<rparr>)
   \<and> \<not> can_reserve GENERAL_ONLY
        (tr\<lparr>general_seat_available := False, special_seat_available := True\<rparr>)"
  by (simp add: can_reserve_def)

section \<open>Credential handling (api/core/security.py)\<close>

text \<open>
  A Python \<open>str\<close> is the list of its code points and a \<open>bytes\<close> value the list of its
  bytes. \<open>str.encode("utf-8")\<close> and \<open>bytes.decode("utf-8")\<close> are written out below: the
  encoder raises \<open>UnicodeEncodeError\<close> on a surrogate code point, the decoder raises
  \<open>UnicodeDecodeError\<close> on anything that is not well-formed UTF-8; \<open>None\<close> stands for
  the error. A number from \<open>0x110000\<close> on is not a code point of a \<open>str\<close>.
\<close>

type_synonym py_str = "nat list"

type_synonym bytes = "nat list"

text \<open>The \<open>str\<close> of an ASCII literal.\<close>

definition ascii :: "string \<Rightarrow> py_str" where
  "ascii s = map of_char s"

subsection \<open>The UTF-8 codec\<close>

definition surrogate :: "nat \<Rightarrow> bool" where
  "surrogate c = (0xD800 \<le> c \<and> c \<le> 0xDFFF)"

text \<open>The bytes of one code point: one to four, by its size.\<close>

definition encode_char :: "nat \<Rightarrow> bytes option" where
  "encode_char c =
     (if c < 0x80 then Some [c]
      else if c < 0x800 then Some [0xC0 + c div 0x40, 0x80 + c mod 0x40]
      else if c < 0x10000 then
        (if surrogate c then None
         else Some [0xE0 + c div 0x1000, 0x80 + c div 0x40 mod 0x40, 0x80 + c mod 0x40])
      else if c < 0x110000 then
        Some [0xF0 + c div 0x40000, 0x80 + c div 0x1000 mod 0x40,
              0x80 + c div 0x40 mod 0x40, 0x80 + c mod 0x40]
      else None)"

text \<open>\<open>s.encode("utf-8")\<close>, with the default \<open>errors="strict"\<close>.\<close>

fun utf8_encode :: "py_str \<Rightarrow> bytes option" where
  "utf8_encode [] = Some []"
| "utf8_encode (c # cs) =
     (case encode_char c of
        None \<Rightarrow> None
      | Some b \<Rightarrow> map_option (\<lambda>more. b @ more) (utf8_encode cs))"

definition continuation :: "nat \<Rightarrow> bool" where
  "continuation b = (0x80 \<le> b \<and> b \<le> 0xBF)"

text \<open>
  \<open>b.decode("utf-8")\<close>, with the default \<open>errors="strict"\<close>: a lead byte says how many
  continuation bytes follow; an encoding longer than needed, a surrogate and a value
  from \<open>0x110000\<close> on are refused.
\<close>

fun utf8_decode :: "bytes \<Rightarrow> py_str option" where
  "utf8_decode [] = Some []"
| "utf8_decode (b0 # bs) =
     (if b0 < 0x80 then map_option (\<lambda>more. b0 # more) (utf8_decode bs)
      else if 0xC2 \<le> b0 \<and> b0 \<le> 0xDF then
        (case bs of
           b1 # r \<Rightarrow>
             if continuation b1
             then map_option (\<lambda>more. ((b0 - 0xC0) * 0x40 + (b1 - 0x80)) # more) (utf8_decode r)
             else None
         | _ \<Rightarrow> None)
      else if 0xE0 \<le> b0 \<and> b0 \<le> 0xEF then
        (case bs of
           b1 # b2 # r \<Rightarrow>
             (let c = (b0 - 0xE0) * 0x1000 + (b1 - 0x80) * 0x40 + (b2 - 0x80)
              in if continuation b1 \<and> continuation b2 \<and> 0x800 \<le> c \<and> \<not> surrogate c
                 then map_option (\<lambda>more. c # more) (utf8_decode r)
                 else None)
         | _ \<Rightarrow> None)
      else if 0xF0 \<le> b0 \<and> b0 \<le> 0xF4 then
        (case bs of
           b1 # b2 # b3 # r \<Rightarrow>
             (let c = (b0 - 0xF0) * 0x40000 + (b1 - 0x80) * 0x1000 + (b2 - 0x80) * 0x40
                      + (b3 - 0x80)
              in if continuation b1 \<and> continuation b2 \<and> continuation b3
                    \<and> 0x10000 \<le> c \<and> c < 0x110000
                 then map_option (\<lambda>more. c # more) (utf8_decode r)
                 else None)
         | _ \<Rightarrow> None)
      else None)"

text \<open>The code points that UTF-8 encodes.\<close>

definition scalar :: "nat \<Rightarrow> bool" where
  "scalar c = (c < 0x110000 \<and> \<not> surrogate c)"

text \<open>A string that \<open>encode("utf-8")\<close> accepts: it holds no surrogate code point.\<close>

definition encodable :: "py_str \<Rightarrow> bool" where
  "encodable s = list_all scalar s"

text \<open>
  The Fernet implementation of the \<open>cryptography\<close> package is not part of the
  repository: a credential handler carries the two operations of the \<open>Fernet\<close> object
  built from the key of the process. \<open>fernet_encrypt\<close> takes the initialisation vector
  and timestamp that the library draws on each call as an extra argument;
  \<open>fernet_decrypt\<close> returns \<open>None\<close> where the library raises \<open>InvalidToken\<close>.
\<close>

record credential_handler =
  fernet_encrypt :: "bytes \<Rightarrow> bytes \<Rightarrow> bytes"
  fernet_decrypt :: "bytes \<Rightarrow> bytes option"

text \<open>
  The contract of the library: a token made with the handler's key decrypts with the
  same key to the plaintext.
\<close>

definition library_contract :: "credential_handler \<Rightarrow> bool" where
  "library_contract h = (\<forall>iv m. fernet_decrypt h (fernet_encrypt h iv m) = Some m)"

definition NUL :: nat where
  "NUL = 0x00"

text \<open>\<open>s.split(sep, 1)\<close> for a one-character separator: at most one split, at the first occurrence.\<close>

definition split1 :: "'a \<Rightarrow> 'a list \<Rightarrow> 'a list list" where
  "split1 sep s =
     (if sep \<in> set s
      then [takeWhile (\<lambda>c. c \<noteq> sep) s, tl (dropWhile (\<lambda>c. c \<noteq> sep) s)]
      else [s])"

datatype credential_error = UnicodeEncodeError | InvalidToken | UnicodeDecodeError | ValueError

text \<open>\<open>encrypt\<close> (lines 24-28): the f-string joins the two strings with the separator.\<close>

definition encrypt :: "credential_handler \<Rightarrow> bytes \<Rightarrow> py_str \<Rightarrow> py_str \<Rightarrow> credential_error + bytes" where
  "encrypt h iv user_id password =
     (case utf8_encode (user_id @ [NUL] @ password) of
        None \<Rightarrow> Inl UnicodeEncodeError
      | Some combined \<Rightarrow> Inr (fernet_encrypt h iv combined))"

text \<open>
  \<open>decrypt\<close> (lines 30-34). Unpacking \<open>user_id, password = decrypted.split("\x00", 1)\<close>
  raises \<open>ValueError\<close> when the list has one element.
\<close>

definition decrypt :: "credential_handler \<Rightarrow> bytes \<Rightarrow> credential_error + (py_str \<times> py_str)" where
  "decrypt h encrypted =
     (case fernet_decrypt h encrypted of
        None \<Rightarrow> Inl InvalidToken
      | Some raw \<Rightarrow>
          (case utf8_decode raw of
             None \<Rightarrow> Inl UnicodeDecodeError
           | Some decrypted \<Rightarrow>
               (case split1 NUL decrypted of
                  [user_id, password] \<Rightarrow> Inr (user_id, password)
                | _ \<Rightarrow> Inl ValueError)))"

text \<open>\<open>decrypt(encrypt(user_id, password))\<close>: an exception of \<open>encrypt\<close> ends the evaluation.\<close>

definition decrypt_encrypted ::
  "credential_handler \<Rightarrow> bytes \<Rightarrow> py_str \<Rightarrow> py_str \<Rightarrow> credential_error + (py_str \<times> py_str)" where
  "decrypt_encrypted h iv user_id password =
     (case encrypt h iv user_id password of
        Inl err \<Rightarrow> Inl err
      | Inr token \<Rightarrow> decrypt h token)"

text \<open>A handler for concrete evaluation: the token is the reversed plaintext.\<close>

definition reversing_handler :: credential_handler where
  "reversing_handler =
     \<lparr>fernet_encrypt = (\<lambda>iv m. rev m), fernet_decrypt = (\<lambda>t. Some (rev t))\<rparr>"

subsection \<open>The codec round trip\<close>

lemma decode1:
  assumes "c < 0x80"
  shows "utf8_decode ([c] @ rest) = map_option (\<lambda>more. c # more) (utf8_decode rest)"
  using assms by simp

lemma decode2:
  assumes "0x80 \<le> c" "c < 0x800"
  shows "utf8_decode ([0xC0 + c div 0x40, 0x80 + c mod 0x40] @ rest)
           = map_option (\<lambda>more. c # more) (utf8_decode rest)"
proof -
  from assms have a: "2 \<le> c div 0x40" "c div 0x40 < 0x20"
    by linarith+
  have b: "c mod 0x40 < 0x40"
    by simp
  have v: "c div 0x40 * 0x40 + c mod 0x40 = c"
    by simp
  from a b have "\<not> 0xC0 + c div 0x40 < 0x80" "0xC2 \<le> 0xC0 + c div 0x40"
    "0xC0 + c div 0x40 \<le> 0xDF" "continuation (0x80 + c mod 0x40)"
    by (simp_all add: continuation_def)
  then show ?thesis
    by (simp add: v)
qed

lemma scale_64: "d * 0x40 + m = (a::nat) \<Longrightarrow> d * 0x1000 + m * 0x40 = a * 0x40"
  by auto

lemma scale_4096: "d * 0x40 + m = (a::nat) \<Longrightarrow> d * 0x40000 + m * 0x1000 = a * 0x1000"
  by auto

lemma three_digits:
  "(c::nat) div 0x1000 * 0x1000 + c div 0x40 mod 0x40 * 0x40 + c mod 0x40 = c"
proof -
  have "c div 0x40 div 0x40 * 0x40 + c div 0x40 mod 0x40 = c div 0x40"
    by simp
  then have "c div 0x40 div 0x40 * 0x1000 + c div 0x40 mod 0x40 * 0x40 = c div 0x40 * 0x40"
    by (rule scale_64)
  moreover have "c div 0x1000 = c div 0x40 div 0x40"
    by (simp add: div_mult2_eq [symmetric])
  moreover have "c div 0x40 * 0x40 + c mod 0x40 = c"
    by simp
  ultimately show ?thesis
    by (simp only:)
qed

lemma four_digits:
  "(c::nat) div 0x40000 * 0x40000 + c div 0x1000 mod 0x40 * 0x1000
     + c div 0x40 mod 0x40 * 0x40 + c mod 0x40 = c"
proof -
  have "c div 0x1000 div 0x40 * 0x40 + c div 0x1000 mod 0x40 = c div 0x1000"
    by simp
  then have "c div 0x1000 div 0x40 * 0x40000 + c div 0x1000 mod 0x40 * 0x1000
               = c div 0x1000 * 0x1000"
    by (rule scale_4096)
  moreover have "c div 0x40000 = c div 0x1000 div 0x40"
    by (simp add: div_mult2_eq [symmetric])
  moreover note three_digits [of c]
  ultimately show ?thesis
    by (simp only: add.assoc)
qed

lemma decode3:
  assumes "0x800 \<le> c" "c < 0x10000" "\<not> surrogate c"
  shows "utf8_decode ([0xE0 + c div 0x1000, 0x80 + c div 0x40 mod 0x40, 0x80 + c mod 0x40] @ rest)
           = map_option (\<lambda>more. c # more) (utf8_decode rest)"
proof -
  from assms have a: "c div 0x1000 < 0x10"
    by linarith
  have b: "c div 0x40 mod 0x40 < 0x40" "c mod 0x40 < 0x40"
    by simp_all
  have v: "c div 0x1000 * 0x1000 + c div 0x40 mod 0x40 * 0x40 + c mod 0x40 = c"
    by (rule three_digits)
  from a b have "\<not> 0xE0 + c div 0x1000 < 0x80" "\<not> 0xE0 + c div 0x1000 \<le> 0xDF"
    "0xE0 \<le> 0xE0 + c div 0x1000" "0xE0 + c div 0x1000 \<le> 0xEF"
    "continuation (0x80 + c div 0x40 mod 0x40)" "continuation (0x80 + c mod 0x40)"
    by (simp_all add: continuation_def)
  with assms show ?thesis
    by (simp add: v)
qed

lemma decode4:
  assumes "0x10000 \<le> c" "c < 0x110000"
  shows "utf8_decode ([0xF0 + c div 0x40000, 0x80 + c div 0x1000 mod 0x40,
                       0x80 + c div 0x40 mod 0x40, 0x80 + c mod 0x40] @ rest)
           = map_option (\<lambda>more. c # more) (utf8_decode rest)"
proof -
  from assms have a: "c div 0x40000 < 5"
    by linarith
  have b: "c div 0x1000 mod 0x40 < 0x40" "c div 0x40 mod 0x40 < 0x40" "c mod 0x40 < 0x40"
    by simp_all
  have v: "c div 0x40000 * 0x40000 + c div 0x1000 mod 0x40 * 0x1000
             + c div 0x40 mod 0x40 * 0x40 + c mod 0x40 = c"
    by (rule four_digits)
  from a b have "\<not> 0xF0 + c div 0x40000 < 0x80" "\<not> 0xF0 + c div 0x40000 \<le> 0xDF"
    "\<not> 0xF0 + c div 0x40000 \<le> 0xEF"
    "0xF0 \<le> 0xF0 + c div 0x40000" "0xF0 + c div 0x40000 \<le> 0xF4"
    "continuation (0x80 + c div 0x1000 mod 0x40)" "continuation (0x80 + c div 0x40 mod 0x40)"
    "continuation (0x80 + c mod 0x40)"
    by (simp_all add: continuation_def)
  with assms show ?thesis
    by (simp add: v)
qed

lemma decode_encoded_char:
  assumes "encode_char c = Some b"
  shows "utf8_decode (b @ rest) = map_option (\<lambda>more. c # more) (utf8_decode rest)"
proof -
  consider (one) "c < 0x80" "b = [c]"
    | (two) "0x80 \<le> c" "c < 0x800" "b = [0xC0 + c div 0x40, 0x80 + c mod 0x40]"
    | (three) "0x800 \<le> c" "c < 0x10000" "\<not> surrogate c"
        "b = [0xE0 + c div 0x1000, 0x80 + c div 0x40 mod 0x40, 0x80 + c mod 0x40]"
    | (four) "0x10000 \<le> c" "c < 0x110000"
        "b = [0xF0 + c div 0x40000, 0x80 + c div 0x1000 mod 0x40,
              0x80 + c div 0x40 mod 0x40, 0x80 + c mod 0x40]"
    using assms unfolding encode_char_def by (auto split: if_splits)
  then show ?thesis
  proof cases
    case one
    then show ?thesis using decode1 by simp
  next
    case two
    then show ?thesis using decode2 [of c rest] by simp
  next
    case three
    then show ?thesis using decode3 [of c rest] by simp
  next
    case four
    then show ?thesis using decode4 [of c rest] by simp
  qed
qed

lemma utf8_roundtrip: "utf8_encode s = Some b \<Longrightarrow> utf8_decode b = Some s"
proof (induction s arbitrary: b)
  case Nil
  then show ?case by simp
next
  case (Cons c cs)
  then obtain bc bcs
    where e: "encode_char c = Some bc" "utf8_encode cs = Some bcs" "b = bc @ bcs"
    by (auto split: option.splits)
  from Cons.IH [OF e(2)] decode_encoded_char [OF e(1), of bcs] e(3) show ?case
    by simp
qed

lemma encode_char_scalar: "(encode_char c = None) = (\<not> scalar c)"
  by (auto simp add: encode_char_def scalar_def surrogate_def)

lemma utf8_encode_encodable: "(utf8_encode s \<noteq> None) = encodable s"
  unfolding encodable_def
proof (induction s)
  case Nil
  then show ?case by simp
next
  case (Cons c cs)
  then show ?case
    using encode_char_scalar [of c] by (auto split: option.splits)
qed

subsection \<open>Round trip of the credentials\<close>

lemma split1_first: "sep \<notin> set u \<Longrightarrow> split1 sep (u @ sep # p) = [u, p]"
  by (simp add: split1_def takeWhile_append dropWhile_append)

lemma scalar_NUL: "scalar NUL"
  by (simp add: scalar_def surrogate_def NUL_def)

lemma decrypt_encrypt:
  assumes "library_contract h" and "NUL \<notin> set user_id"
    and "encodable user_id" and "encodable password"
  shows "decrypt_encrypted h iv user_id password = Inr (user_id, password)"
proof -
  from assms(3,4) have "encodable (user_id @ [NUL] @ password)"
    by (simp add: encodable_def scalar_NUL)
  then obtain combined where c: "utf8_encode (user_id @ [NUL] @ password) = Some combined"
    using utf8_encode_encodable [of "user_id @ [NUL] @ password"] by auto
  then have d: "utf8_decode combined = Some (user_id @ [NUL] @ password)"
    by (rule utf8_roundtrip)
  from assms(1) have f: "\<And>iv m. fernet_decrypt h (fernet_encrypt h iv m) = Some m"
    by (simp add: library_contract_def)
  from assms(2) have "split1 NUL (user_id @ NUL # password) = [user_id, password]"
    by (rule split1_first)
  with c d show ?thesis
    by (simp add: decrypt_encrypted_def decrypt_def encrypt_def f)
qed

lemma encrypt_surrogate:
  "\<not> encodable user_id \<or> \<not> encodable password \<Longrightarrow>
     decrypt_encrypted h iv user_id password = Inl UnicodeEncodeError"
proof -
  assume "\<not> encodable user_id \<or> \<not> encodable password"
  then have "\<not> encodable (user_id @ [NUL] @ password)"
    by (auto simp add: encodable_def)
  then have "utf8_encode (user_id @ [NUL] @ password) = None"
    using utf8_encode_encodable [of "user_id @ [NUL] @ password"] by simp
  then show ?thesis
    by (simp add: decrypt_encrypted_def encrypt_def)
qed

lemma reversing_handler_contract: "library_contract reversing_handler"
  by (simp add: library_contract_def reversing_handler_def)

lemmas codec_eval = ascii_def NUL_def encodable_def scalar_def surrogate_def encode_char_def
  continuation_def

text \<open>
  C4, amended. For every pair of strings \<open>(user_id, password)\<close> in which neither string
  contains the separator \<open>NUL\<close> and neither holds a surrogate code point, decrypting the
  encrypted pair with the same handler (the key of the current process) returns exactly
  \<open>(user_id, password)\<close>.
\<close>

theorem roundtrip_without_separator:
  assumes "library_contract h"
    and "NUL \<notin> set user_id" and "NUL \<notin> set password"
    and "encodable user_id" and "encodable password"
  shows "decrypt_encrypted h iv user_id password = Inr (user_id, password)"
  using assms(1,2,4,5) by (rule decrypt_encrypt)

theorem roundtrip_without_separator_witness:
  "library_contract reversing_handler
   \<and> NUL \<notin> set (ascii ''1234567890'') \<and> NUL \<notin> set (ascii ''s3cret!'')
   \<and> encodable (ascii ''1234567890'') \<and> encodable (ascii ''s3cret!'')
   \<and> decrypt_encrypted reversing_handler [] (ascii ''1234567890'') (ascii ''s3cret!'')
       = Inr (ascii ''1234567890'', ascii ''s3cret!'')"
proof -
  have n: "NUL \<notin> set (ascii ''1234567890'')" "NUL \<notin> set (ascii ''s3cret!'')"
    and e: "encodable (ascii ''1234567890'')" "encodable (ascii ''s3cret!'')"
    by (simp_all add: codec_eval)
  from roundtrip_without_separator [OF reversing_handler_contract n e]
    reversing_handler_contract n e
  show ?thesis by simp
qed

text \<open>
  The claim C4 as first stated asks only that neither string contains \<open>NUL\<close>. The
  string made of the one code point \<open>U+D800\<close> contains no \<open>NUL\<close>, and \<open>encrypt\<close> raises
  \<open>UnicodeEncodeError\<close> on it.
\<close>

theorem surrogate_in_user_id:
  "NUL \<notin> set [0xD800] \<and> NUL \<notin> set (ascii ''s3cret!'')
   \<and> decrypt_encrypted reversing_handler [] [0xD800] (ascii ''s3cret!'')
       = Inl UnicodeEncodeError"
  by (simp add: decrypt_encrypted_def encrypt_def codec_eval)

text \<open>
  C10, amended. The round trip also holds when the password contains the separator:
  for every \<open>user_id\<close> without \<open>NUL\<close> and every password, neither holding a surrogate
  code point, decrypting the encrypted pair returns \<open>(user_id, password)\<close>, since the
  plaintext is split at the first separator only.
\<close>

theorem roundtrip_separator_in_password:
  assumes "library_contract h" and "NUL \<notin> set user_id"
    and "encodable user_id" and "encodable password"
  shows "decrypt_encrypted h iv user_id password = Inr (user_id, password)"
  using assms by (rule decrypt_encrypt)

theorem roundtrip_separator_in_password_witness:
  "library_contract reversing_handler
   \<and> NUL \<notin> set (ascii ''user'') \<and> NUL \<in> set (ascii ''pa'' @ NUL # ascii ''ss'' @ [NUL])
   \<and> encodable (ascii ''user'') \<and> encodable (ascii ''pa'' @ NUL # ascii ''ss'' @ [NUL])
   \<and> decrypt_encrypted reversing_handler []
        (ascii ''user'') (ascii ''pa'' @ NUL # ascii ''ss'' @ [NUL])
       = Inr (ascii ''user'', ascii ''pa'' @ NUL # ascii ''ss'' @ [NUL])"
proof -
  have n: "NUL \<notin> set (ascii ''user'')"
    and e: "encodable (ascii ''user'')" "encodable (ascii ''pa'' @ NUL # ascii ''ss'' @ [NUL])"
    by (simp_all add: codec_eval)
  from roundtrip_separator_in_password [OF reversing_handler_contract n e]
    reversing_handler_contract n e
  show ?thesis by simp
qed

text \<open>
  The claim C10 as first stated takes every password. On a password that holds the
  separator and the code point \<open>U+DC00\<close>, \<open>encrypt\<close> raises \<open>UnicodeEncodeError\<close>.
\<close>

theorem surrogate_in_password:
  "NUL \<notin> set (ascii ''user'')
   \<and> decrypt_encrypted reversing_handler [] (ascii ''user'') [0x70, NUL, 0xDC00]
       = Inl UnicodeEncodeError"
  by (simp add: decrypt_encrypted_def encrypt_def codec_eval)

text \<open>
  The hypothesis on \<open>user_id\<close> cannot be dropped: a separator inside \<open>user_id\<close> moves the
  split point.
\<close>

lemma separator_in_user_id:
  "decrypt_encrypted reversing_handler [] (ascii ''a'' @ NUL # ascii ''b'') (ascii ''pw'')
     = Inr (ascii ''a'', ascii ''b'' @ NUL # ascii ''pw'')"
  by (simp add: decrypt_encrypted_def decrypt_def encrypt_def reversing_handler_def split1_def
      codec_eval)

section \<open>Passenger counts (api/models/schemas.py)\<close>

record passenger_count =
  adult :: int
  child :: int
  senior :: int
  disability_1_3 :: int
  disability_4_6 :: int
  toddler :: int

definition total :: "passenger_count \<Rightarrow> int" where
  "total p = adult p + child p + senior p + disability_1_3 p + disability_4_6 p + toddler p"

definition validate_total :: "passenger_count \<Rightarrow> bool" where
  "validate_total p = (1 \<le> total p \<and> total p \<le> 9)"

text \<open>
  What the schema enforces when a \<open>PassengerCount\<close> is built: every field carries
  \<open>Field(ge=0, le=9)\<close> and nothing else. \<open>validate_total\<close> is a method that no code of
  the repository calls.
\<close>

definition field_ge0_le9 :: "int \<Rightarrow> bool" where
  "field_ge0_le9 v = (0 \<le> v \<and> v \<le> 9)"

definition PassengerCount_accepts :: "passenger_count \<Rightarrow> bool" where
  "PassengerCount_accepts p =
     (field_ge0_le9 (adult p) \<and> field_ge0_le9 (child p) \<and> field_ge0_le9 (senior p)
      \<and> field_ge0_le9 (disability_1_3 p) \<and> field_ge0_le9 (disability_4_6 p)
      \<and> field_ge0_le9 (toddler p))"

text \<open>
  The fields of \<open>JobCreateRequest\<close> that carry a constraint: \<open>date\<close> matches \<open>^\d{8}$\<close>,
  \<open>time\<close> matches \<open>^\d{6}$\<close>, \<open>selected_trains\<close> has \<open>min_length=1\<close>, and \<open>passengers\<close>
  is a \<open>PassengerCount\<close>. \<open>digits\<close> takes the ASCII digits only; the pattern also
  accepts the other Unicode decimal digits, so that the model accepts no request the
  schema refuses.
\<close>

definition is_digit :: "char \<Rightarrow> bool" where
  "is_digit c = (c \<in> set ''0123456789'')"

definition digits :: "nat \<Rightarrow> string \<Rightarrow> bool" where
  "digits n s = (length s = n \<and> list_all is_digit s)"

record job_create_request =
  req_departure :: string
  req_arrival :: string
  req_date :: string
  req_time :: string
  req_passengers :: passenger_count
  req_seat_type :: seat_type
  req_selected_trains :: "int list"
  req_prefer_window :: bool
  req_use_standby :: bool

definition JobCreateRequest_accepts :: "job_create_request \<Rightarrow> bool" where
  "JobCreateRequest_accepts r =
     (digits 8 (req_date r) \<and> digits 6 (req_time r)
      \<and> PassengerCount_accepts (req_passengers r)
      \<and> 1 \<le> length (req_selected_trains r))"

definition no_passengers :: passenger_count where
  "no_passengers =
     \<lparr>adult = 0, child = 0, senior = 0, disability_1_3 = 0, disability_4_6 = 0, toddler = 0\<rparr>"

definition eighteen_passengers :: passenger_count where
  "eighteen_passengers =
     \<lparr>adult = 9, child = 9, senior = 0, disability_1_3 = 0, disability_4_6 = 0, toddler = 0\<rparr>"

definition request_with :: "passenger_count \<Rightarrow> job_create_request" where
  "request_with p =
     \<lparr>req_departure = ''Suseo'', req_arrival = ''Busan'', req_date = ''20250101'',
      req_time = ''000000'', req_passengers = p, req_seat_type = GENERAL_FIRST,
      req_selected_trains = [0], req_prefer_window = False, req_use_standby = False\<rparr>"

subsection \<open>What an accepted request guarantees\<close>

lemma accepted_buckets_bounded:
  "JobCreateRequest_accepts r \<Longrightarrow>
     0 \<le> total (req_passengers r) \<and> total (req_passengers r) \<le> 54"
  by (simp add: JobCreateRequest_accepts_def PassengerCount_accepts_def field_ge0_le9_def
      total_def)

text \<open>
  C8. An accepted request has every bucket between 0 and 9, a total of at most 9 and
  a total of at least 1. The schema checks the buckets only: the request whose six
  buckets are all 0 is accepted with total 0, and the request with nine adults and nine
  children is accepted with total 18, although \<open>validate_total\<close> is false on both.
\<close>

theorem total_not_enforced:
  "JobCreateRequest_accepts (request_with no_passengers)
   \<and> total (req_passengers (request_with no_passengers)) = 0
   \<and> \<not> validate_total (req_passengers (request_with no_passengers))
   \<and> JobCreateRequest_accepts (request_with eighteen_passengers)
   \<and> total (req_passengers (request_with eighteen_passengers)) = 18
   \<and> \<not> validate_total (req_passengers (request_with eighteen_passengers))"
  by (simp add: JobCreateRequest_accepts_def PassengerCount_accepts_def field_ge0_le9_def
      digits_def is_digit_def request_with_def no_passengers_def eighteen_passengers_def
      total_def validate_total_def)

section \<open>Sessions (api/core/session.py)\<close>

text \<open>
  Times are integers (microseconds since the epoch); every function that reads the
  clock takes the reading as its argument \<open>now\<close>. Rail clients and websockets are
  handles; a client records whether it has a \<open>logout\<close> attribute.
\<close>

type_synonym time = int

record user_info =
  name :: "string option"
  membership_number :: "string option"

record client =
  client_handle :: nat
  has_logout :: bool

text \<open>
  \<open>Session.jobs\<close> maps a job id to the \<open>JobData\<close> object that \<open>JobService._jobs\<close> holds
  under the same key; the model keeps the keys, in insertion order, and finds the
  objects in the job service's table.
\<close>

record session =
  session_id :: string
  rail_type :: string
  encrypted_credentials :: bytes
  user_info :: user_info
  expires_at :: time
  rail_client :: "client option"
  jobs :: "string list"
  websocket_connections :: "nat list"

definition is_expired :: "time \<Rightarrow> session \<Rightarrow> bool" where
  "is_expired now s = (now > expires_at s)"

record session_manager =
  ttl_minutes :: int
  sessions :: "string \<rightharpoonup> session"
  credential_handler :: credential_handler

definition timedelta_minutes :: "int \<Rightarrow> time" where
  "timedelta_minutes m = m * 60000000"

text \<open>
  \<open>get_session\<close> returns the looked-up session together with the manager it leaves
  behind; the source assigns nothing, so that is the manager it was given.
\<close>

definition get_session :: "string \<Rightarrow> time \<Rightarrow> session_manager \<Rightarrow> session option \<times> session_manager" where
  "get_session sid now m =
     (case sessions m sid of
        None \<Rightarrow> (None, m)
      | Some s \<Rightarrow> if \<not> is_expired now s then (Some s, m) else (None, m))"

definition refresh_session :: "string \<Rightarrow> time \<Rightarrow> session_manager \<Rightarrow> bool \<times> session_manager" where
  "refresh_session sid now m =
     (case sessions m sid of
        None \<Rightarrow> (False, m)
      | Some s \<Rightarrow>
          if \<not> is_expired now s
          then (True, m\<lparr>sessions := (sessions m)
                  (sid \<mapsto> s\<lparr>expires_at := now + timedelta_minutes (ttl_minutes m)\<rparr>)\<rparr>)
          else (False, m))"

definition get_credentials :: "session_manager \<Rightarrow> session \<Rightarrow> credential_error + (py_str \<times> py_str)" where
  "get_credentials m s = decrypt (credential_handler m) (encrypted_credentials s)"

section \<open>Jobs and their tasks (api/services/job_service.py)\<close>

datatype reservation = Reservation string bool

record job_data =
  job_id :: string
  job_session_id :: string
  departure :: string
  arrival :: string
  date :: string
  time :: string
  passengers :: passenger_count
  seat_type :: seat_type
  selected_trains :: "int list"
  prefer_window :: bool
  use_standby :: bool
  status :: job_status
  attempt_count :: int
  created_at :: time
  started_at :: "time option"
  completed_at :: "time option"
  result :: "reservation option"
  error :: "string option"
  cancelled :: bool

text \<open>
  What an awaited call can raise: the re-authentication condition (\<open>SRTLoginError\<close>,
  \<open>NeedToLoginError\<close>) with its text, a \<open>RailServiceError\<close> with code and message, or
  any other \<open>Exception\<close> with its text. \<open>asyncio.CancelledError\<close> is not an
  \<open>Exception\<close>; it is delivered through the task's cancellation flag below.
\<close>

datatype exn =
    LoginRequired string
  | RailServiceError string string
  | OtherException string

text \<open>
  What the awaited call hands back when the task is resumed at an \<open>await\<close>. Which of
  these answers the methods of \<open>RailService\<close> give is the matter of the section on the
  calls of the provider.
\<close>

datatype response =
    Completed
  | Trains "train list"
  | Reserved reservation
  | LoggedIn client user_info
  | Raised exn

text \<open>
  The point at which the coroutine \<open>_run_booking_loop\<close> is suspended, with the local
  variables that are live there: the searched trains, the selected indices still to
  visit, the index being attempted and \<open>is_standby\<close>.
\<close>

datatype pc =
    NotStarted
  | AwaitJobStarted
  | AwaitSearch
  | AwaitSearchRelogin
  | AwaitSearchRetry
  | AwaitSearchProgress "train list"
  | AwaitReserveAttempt "train list" "int list" int bool
  | AwaitReserve "train list" "int list" int bool
  | AwaitReserveRelogin "train list" "int list" int bool
  | AwaitReserveRetry "train list" "int list" int bool
  | AwaitReserveFailed "train list" "int list" string string
  | AwaitReserveSuccess reservation bool
  | AwaitCompletedSuccess reservation bool
  | AwaitNotifySuccess
  | AwaitCompletedFailed string
  | AwaitNotifyFailed
  | AwaitCompletedException
  | AwaitSleep
  | Finished

text \<open>
  A \<open>JobData\<close> object with its asyncio task (the suspension point and the pending
  cancellation request), the \<open>Session\<close> object the task was started with, and whether
  the session's Telegram notifier is enabled.
\<close>

record job_entry =
  job :: job_data
  task_pc :: pc
  must_cancel :: bool
  session :: session
  notifier_enabled :: bool

datatype event_type =
    JOB_STARTED | SEARCH_PROGRESS | RESERVE_ATTEMPT | RESERVE_SUCCESS | RESERVE_FAILED
  | JOB_COMPLETED | JOB_CANCELLED

datatype payload =
    Started nat
  | Progress int nat "(int \<times> bool \<times> bool \<times> bool) list" nat
  | Attempting int bool
  | Succeeded reservation
  | ReserveFailure int string string bool bool
  | CompletedSuccess int reservation bool
  | CompletedFailure int string
  | Cancelled_payload

text \<open>
  The calls the engine issues: a websocket broadcast (session id, event type, job id,
  data), the provider calls of \<open>RailService\<close>, the sleep between attempts and the
  Telegram notifications.
\<close>

datatype effect =
    Broadcast string event_type string payload
  | SearchTrains
  | Reserve int
  | ReserveStandby int
  | Login string py_str py_str
  | Sleep
  | NotifySuccess reservation bool
  | NotifyFailed string

definition create_job :: "string \<Rightarrow> time \<Rightarrow> session \<Rightarrow> bool \<Rightarrow> job_create_request \<Rightarrow> job_entry" where
  "create_job new_id now s notif r =
     \<lparr>job = \<lparr>job_id = new_id, job_session_id = session_id s,
              departure = req_departure r, arrival = req_arrival r,
              date = req_date r, time = req_time r, passengers = req_passengers r,
              seat_type = req_seat_type r, selected_trains = req_selected_trains r,
              prefer_window = req_prefer_window r, use_standby = req_use_standby r,
              status = PENDING, attempt_count = 0, created_at = now,
              started_at = None, completed_at = None, result = None, error = None,
              cancelled = False\<rparr>,
      task_pc = NotStarted, must_cancel = False,
      session = s\<lparr>jobs := jobs s @ [new_id]\<rparr>, notifier_enabled = notif\<rparr>"

subsection \<open>Task cancellation and cancel_job\<close>

text \<open>\<open>Task.cancel()\<close>: a task that is done is left alone, any other is marked.\<close>

definition task_done :: "job_entry \<Rightarrow> bool" where
  "task_done e = (task_pc e = Finished)"

definition task_cancel :: "job_entry \<Rightarrow> job_entry" where
  "task_cancel e = (if task_done e then e else e\<lparr>must_cancel := True\<rparr>)"


text \<open>The body of \<open>cancel_job\<close> once the job has been found.\<close>

definition cancel_found :: "time \<Rightarrow> job_entry \<Rightarrow> (job_entry \<times> effect list) option" where
  "cancel_found now e =
     (if status (job e) \<notin> {PENDING, RUNNING} then None
      else
        (let e1 = e\<lparr>job := (job e)\<lparr>cancelled := True, status := CANCELLED,
                                     completed_at := Some now\<rparr>\<rparr>;
             e2 = (if \<not> task_done e1 then task_cancel e1 else e1)
         in Some (e2, [Broadcast (job_session_id (job e2)) JOB_CANCELLED (job_id (job e2))
                         Cancelled_payload])))"

type_synonym job_service = "string \<rightharpoonup> job_entry"

definition cancel_job :: "string \<Rightarrow> time \<Rightarrow> job_service \<Rightarrow> bool \<times> job_service \<times> effect list" where
  "cancel_job jid now js =
     (case js jid of
        None \<Rightarrow> (False, js, [])
      | Some e \<Rightarrow>
          (case cancel_found now e of
             None \<Rightarrow> (False, js, [])
           | Some (e', out) \<Rightarrow> (True, js(jid \<mapsto> e'), out)))"

subsection \<open>Destroying a session (api/core/session.py, lines 194-226)\<close>

datatype session_effect = CloseWebsocket nat | Logout client

definition cancel_tasks :: "string list \<Rightarrow> job_service \<Rightarrow> job_service" where
  "cancel_tasks ids js =
     foldl (\<lambda>t jid. case t jid of None \<Rightarrow> t | Some e \<Rightarrow> t(jid \<mapsto> task_cancel e)) js ids"

definition destroy_session_internal ::
  "string \<Rightarrow> session_manager \<Rightarrow> job_service
     \<Rightarrow> bool \<times> session_manager \<times> job_service \<times> session_effect list" where
  "destroy_session_internal sid m js =
     (case sessions m sid of
        None \<Rightarrow> (False, m, js, [])
      | Some s \<Rightarrow>
          (True, m\<lparr>sessions := (sessions m)(sid := None)\<rparr>, cancel_tasks (jobs s) js,
           map CloseWebsocket (websocket_connections s)
           @ (case rail_client s of
                None \<Rightarrow> []
              | Some c \<Rightarrow> if has_logout c then [Logout c] else [])))"

definition destroy_session ::
  "string \<Rightarrow> session_manager \<Rightarrow> job_service
     \<Rightarrow> bool \<times> session_manager \<times> job_service \<times> session_effect list" where
  "destroy_session sid m js = destroy_session_internal sid m js"

subsection \<open>The booking loop (lines 208-555), one resumption at a time\<close>

text \<open>
  Each function below is the code that runs between two suspension points; it returns
  the entry as that code leaves it and the calls it issued, the last of which is the
  call the task now awaits. Elapsed times in event data are left out.
\<close>

definition loop_broadcast :: "job_entry \<Rightarrow> event_type \<Rightarrow> payload \<Rightarrow> effect" where
  "loop_broadcast e ty d = Broadcast (session_id (session e)) ty (job_id (job e)) d"

definition finish :: "job_entry \<Rightarrow> job_entry \<times> effect list" where
  "finish e = (e\<lparr>task_pc := Finished\<rparr>, [])"

text \<open>\<open>trains[idx]\<close>: a negative index counts from the end; \<open>None\<close> is \<open>IndexError\<close>.\<close>

definition py_index :: "'a list \<Rightarrow> int \<Rightarrow> 'a option" where
  "py_index xs i =
     (if 0 \<le> i \<and> i < int (length xs) then Some (xs ! nat i)
      else if i < 0 \<and> - int (length xs) \<le> i then Some (xs ! nat (int (length xs) + i))
      else None)"

definition index_error_text :: string where
  "index_error_text = ''list index out of range''"

text \<open>\<open>except Exception as e\<close> (lines 536-555), with \<open>msg = str(e)\<close>.\<close>

definition on_exception :: "time \<Rightarrow> string \<Rightarrow> job_entry \<Rightarrow> job_entry \<times> effect list" where
  "on_exception now msg e =
     (let e' = e\<lparr>job := (job e)\<lparr>status := FAILED, completed_at := Some now,
                                  error := Some msg\<rparr>,
                  task_pc := AwaitCompletedException\<rparr>
      in (e', [loop_broadcast e' JOB_COMPLETED (CompletedFailure (attempt_count (job e')) msg)]))"

text \<open>The sleep after an attempt (lines 526-528).\<close>

definition sleep :: "job_entry \<Rightarrow> job_entry \<times> effect list" where
  "sleep e = (e\<lparr>task_pc := AwaitSleep\<rparr>, [Sleep])"

text \<open>\<open>except RailServiceError as e\<close> of the attempt (lines 490-524).\<close>

definition on_rail_service_error :: "time \<Rightarrow> string \<Rightarrow> string \<Rightarrow> job_entry \<Rightarrow> job_entry \<times> effect list" where
  "on_rail_service_error now code msg e =
     (if code \<notin> {''RESERVE_SOLD_OUT'', ''TRAIN_SEARCH_NO_RESULTS''}
      then
        (let e' = e\<lparr>job := (job e)\<lparr>status := FAILED, completed_at := Some now,
                                     error := Some msg\<rparr>,
                     task_pc := AwaitCompletedFailed msg\<rparr>
         in (e', [loop_broadcast e' JOB_COMPLETED
                    (CompletedFailure (attempt_count (job e')) msg)]))
      else sleep e)"

text \<open>The head of the \<open>while\<close> loop (lines 252-264).\<close>

definition loop_top :: "job_entry \<Rightarrow> job_entry \<times> effect list" where
  "loop_top e =
     (if cancelled (job e) then finish e
      else (e\<lparr>job := (job e)\<lparr>attempt_count := attempt_count (job e) + 1\<rparr>,
              task_pc := AwaitSearch\<rparr>, [SearchTrains]))"

text \<open>The first \<open>for\<close> loop (lines 290-299); \<open>None\<close> is the \<open>IndexError\<close> of \<open>trains[idx]\<close>.\<close>

fun available_seats :: "train list \<Rightarrow> int list \<Rightarrow> (int \<times> bool \<times> bool \<times> bool) list option" where
  "available_seats trains [] = Some []"
| "available_seats trains (idx # rest) =
     (if idx < int (length trains)
      then (case py_index trains idx of
              None \<Rightarrow> None
            | Some tr \<Rightarrow>
                map_option
                  (\<lambda>more. (idx, general_seat_available tr, special_seat_available tr,
                            standby_available tr) # more)
                  (available_seats trains rest))
      else available_seats trains rest)"

definition available_count :: "(int \<times> bool \<times> bool \<times> bool) list \<Rightarrow> nat" where
  "available_count seats = length (filter (\<lambda>(i, g, s, w). g \<or> s \<or> w) seats)"

text \<open>After \<open>trains\<close> has been assigned (lines 289-326).\<close>

definition after_search :: "time \<Rightarrow> train list \<Rightarrow> job_entry \<Rightarrow> job_entry \<times> effect list" where
  "after_search now trains e =
     (case available_seats trains (selected_trains (job e)) of
        None \<Rightarrow> on_exception now index_error_text e
      | Some seats \<Rightarrow>
          (e\<lparr>task_pc := AwaitSearchProgress trains\<rparr>,
           [loop_broadcast e SEARCH_PROGRESS
              (Progress (attempt_count (job e)) (length trains) seats (available_count seats))]))"

text \<open>
  The second \<open>for\<close> loop (lines 331-358) from its current position up to the first index
  that is attempted: \<open>break\<close> on the cancellation flag, \<open>continue\<close> past an index out of
  range and past a train that is neither reservable nor open for standby.
\<close>

datatype scan = Attempt int train bool "int list" | Exhausted | IndexError

fun next_attempt :: "job_data \<Rightarrow> train list \<Rightarrow> int list \<Rightarrow> scan" where
  "next_attempt j trains [] = Exhausted"
| "next_attempt j trains (idx # rest) =
     (if cancelled j then Exhausted
      else if idx \<ge> int (length trains) then next_attempt j trains rest
      else (case py_index trains idx of
              None \<Rightarrow> IndexError
            | Some tr \<Rightarrow>
                if \<not> can_reserve (seat_type j) tr
                   \<and> \<not> can_standby (seat_type j) (use_standby j) tr
                then next_attempt j trains rest
                else Attempt idx tr (is_standby (seat_type j) (use_standby j) tr) rest))"

definition try_trains :: "time \<Rightarrow> train list \<Rightarrow> int list \<Rightarrow> job_entry \<Rightarrow> job_entry \<times> effect list" where
  "try_trains now trains idxs e =
     (case next_attempt (job e) trains idxs of
        Exhausted \<Rightarrow> sleep e
      | IndexError \<Rightarrow> on_exception now index_error_text e
      | Attempt idx tr sb rest \<Rightarrow>
          (e\<lparr>task_pc := AwaitReserveAttempt trains rest idx sb\<rparr>,
           [loop_broadcast e RESERVE_ATTEMPT (Attempting idx sb)]))"

text \<open>The call of lines 384-398 and 409-421.\<close>

definition reserve_call :: "int \<Rightarrow> bool \<Rightarrow> effect" where
  "reserve_call idx sb = (if sb then ReserveStandby idx else Reserve idx)"

text \<open>
  \<open>_relogin_if_needed\<close> (lines 180-206) up to its \<open>await\<close>: the stored credentials are
  decrypted; a failure there is caught and makes the function return \<open>False\<close> (here
  \<open>None\<close>), otherwise \<open>RailService.login\<close> is called.
\<close>

definition relogin_call :: "credential_handler \<Rightarrow> job_entry \<Rightarrow> effect option" where
  "relogin_call h e =
     (case decrypt h (encrypted_credentials (session e)) of
        Inl err \<Rightarrow> None
      | Inr (user_id, password) \<Rightarrow> Some (Login (rail_type (session e)) user_id password))"

text \<open>Lines 197-199: the new client replaces the session's client handle.\<close>

definition relogin_done :: "client \<Rightarrow> user_info \<Rightarrow> job_entry \<Rightarrow> job_entry" where
  "relogin_done c ui e = e\<lparr>session := (session e)\<lparr>rail_client := Some c, user_info := ui\<rparr>\<rparr>"

text \<open>The message of lines 286 and 426, as its UTF-8 bytes.\<close>

definition relogin_failed_message :: string where
  "relogin_failed_message =
     [CHR 0xEC, CHR 0x84, CHR 0xB8, CHR 0xEC, CHR 0x85, CHR 0x98, CHR 0xEC, CHR 0x9D,
      CHR 0xB4, CHR 0x20, CHR 0xEB, CHR 0xA7, CHR 0x8C, CHR 0xEB, CHR 0xA3, CHR 0x8C,
      CHR 0xEB, CHR 0x90, CHR 0x98, CHR 0xEC, CHR 0x96, CHR 0xB4, CHR 0x20, CHR 0xEC,
      CHR 0x9E, CHR 0xAC, CHR 0xEB, CHR 0xA1, CHR 0x9C, CHR 0xEA, CHR 0xB7, CHR 0xB8,
      CHR 0xEC, CHR 0x9D, CHR 0xB8, CHR 0xEC, CHR 0x97, CHR 0x90, CHR 0x20, CHR 0xEC,
      CHR 0x8B, CHR 0xA4, CHR 0xED, CHR 0x8C, CHR 0xA8, CHR 0xED, CHR 0x96, CHR 0x88,
      CHR 0xEC, CHR 0x8A, CHR 0xB5, CHR 0xEB, CHR 0x8B, CHR 0x88, CHR 0xEB, CHR 0x8B,
      CHR 0xA4, CHR 0x2E]"

text \<open>The inner \<open>except RailServiceError as e\<close> (lines 471-484), up to its broadcast.\<close>

definition reserve_failed ::
  "train list \<Rightarrow> int list \<Rightarrow> int \<Rightarrow> bool \<Rightarrow> string \<Rightarrow> string \<Rightarrow> job_entry \<Rightarrow> job_entry \<times> effect list" where
  "reserve_failed trains rest idx sb code msg e =
     (e\<lparr>task_pc := AwaitReserveFailed trains rest code msg\<rparr>,
      [loop_broadcast e RESERVE_FAILED
         (ReserveFailure idx code msg
            (code \<in> {''RESERVE_SOLD_OUT'', ''STANDBY_NOT_AVAILABLE''}) sb)])"

text \<open>Lines 486-488, after that broadcast: re-raise, or go on with the next index.\<close>

definition after_reserve_failed ::
  "time \<Rightarrow> train list \<Rightarrow> int list \<Rightarrow> string \<Rightarrow> string \<Rightarrow> job_entry \<Rightarrow> job_entry \<times> effect list" where
  "after_reserve_failed now trains rest code msg e =
     (if code \<notin> {''RESERVE_SOLD_OUT'', ''STANDBY_NOT_AVAILABLE''}
      then on_rail_service_error now code msg e
      else try_trains now trains rest e)"

text \<open>Lines 429-439.\<close>

definition reserve_succeeded :: "time \<Rightarrow> reservation \<Rightarrow> bool \<Rightarrow> job_entry \<Rightarrow> job_entry \<times> effect list" where
  "reserve_succeeded now r sb e =
     (let e' = e\<lparr>job := (job e)\<lparr>status := SUCCESS, completed_at := Some now,
                                  result := Some r\<rparr>,
                  task_pc := AwaitReserveSuccess r sb\<rparr>
      in (e', [loop_broadcast e' RESERVE_SUCCESS (Succeeded r)]))"

text \<open>The search of lines 258-264, and its retry of lines 275-281.\<close>

definition on_search :: "credential_handler \<Rightarrow> time \<Rightarrow> bool \<Rightarrow> response \<Rightarrow> job_entry \<Rightarrow> job_entry \<times> effect list" where
  "on_search h now retry r e =
     (case r of
        Trains trains \<Rightarrow> after_search now trains e
      | Raised (LoginRequired msg) \<Rightarrow>
          if retry then on_exception now msg e
          else (case relogin_call h e of
                  None \<Rightarrow> on_rail_service_error now ''SESSION_EXPIRED'' relogin_failed_message e
                | Some call \<Rightarrow> (e\<lparr>task_pc := AwaitSearchRelogin\<rparr>, [call]))
      | Raised (RailServiceError code msg) \<Rightarrow> on_rail_service_error now code msg e
      | Raised (OtherException msg) \<Rightarrow> on_exception now msg e
      | _ \<Rightarrow> (e, []))"

text \<open>The login awaited by \<open>_relogin_if_needed\<close>, called from line 269.\<close>

definition on_search_relogin :: "time \<Rightarrow> response \<Rightarrow> job_entry \<Rightarrow> job_entry \<times> effect list" where
  "on_search_relogin now r e =
     (case r of
        LoggedIn c ui \<Rightarrow> ((relogin_done c ui e)\<lparr>task_pc := AwaitSearchRetry\<rparr>, [SearchTrains])
      | Raised x \<Rightarrow> on_rail_service_error now ''SESSION_EXPIRED'' relogin_failed_message e
      | _ \<Rightarrow> (e, []))"

text \<open>The reservation of lines 384-398, and its retry of lines 409-421.\<close>

definition on_reserve ::
  "credential_handler \<Rightarrow> time \<Rightarrow> bool \<Rightarrow> train list \<Rightarrow> int list \<Rightarrow> int \<Rightarrow> bool \<Rightarrow> response
     \<Rightarrow> job_entry \<Rightarrow> job_entry \<times> effect list" where
  "on_reserve h now retry trains rest idx sb r e =
     (case r of
        Reserved res \<Rightarrow> reserve_succeeded now res sb e
      | Raised (LoginRequired msg) \<Rightarrow>
          if retry then on_exception now msg e
          else (case relogin_call h e of
                  None \<Rightarrow> reserve_failed trains rest idx sb ''SESSION_EXPIRED''
                            relogin_failed_message e
                | Some call \<Rightarrow> (e\<lparr>task_pc := AwaitReserveRelogin trains rest idx sb\<rparr>, [call]))
      | Raised (RailServiceError code msg) \<Rightarrow> reserve_failed trains rest idx sb code msg e
      | Raised (OtherException msg) \<Rightarrow> on_exception now msg e
      | _ \<Rightarrow> (e, []))"

text \<open>The login awaited by \<open>_relogin_if_needed\<close>, called from line 403.\<close>

definition on_reserve_relogin ::
  "train list \<Rightarrow> int list \<Rightarrow> int \<Rightarrow> bool \<Rightarrow> response \<Rightarrow> job_entry \<Rightarrow> job_entry \<times> effect list" where
  "on_reserve_relogin trains rest idx sb r e =
     (case r of
        LoggedIn c ui \<Rightarrow>
          ((relogin_done c ui e)\<lparr>task_pc := AwaitReserveRetry trains rest idx sb\<rparr>,
           [reserve_call idx sb])
      | Raised x \<Rightarrow> reserve_failed trains rest idx sb ''SESSION_EXPIRED'' relogin_failed_message e
      | _ \<Rightarrow> (e, []))"

text \<open>
  A broadcast returns \<open>None\<close>: \<open>broadcast_to_session\<close> catches every \<open>Exception\<close> of a
  send. The notifications of lines 460-467 and 512-522 sit in a \<open>try\<close> that catches
  every \<open>Exception\<close>.
\<close>

definition notify_success :: "reservation \<Rightarrow> bool \<Rightarrow> job_entry \<Rightarrow> job_entry \<times> effect list" where
  "notify_success res sb e =
     (if notifier_enabled e then (e\<lparr>task_pc := AwaitNotifySuccess\<rparr>, [NotifySuccess res sb])
      else finish e)"

definition notify_failed :: "string \<Rightarrow> job_entry \<Rightarrow> job_entry \<times> effect list" where
  "notify_failed msg e =
     (if notifier_enabled e then (e\<lparr>task_pc := AwaitNotifyFailed\<rparr>, [NotifyFailed msg])
      else finish e)"

definition on_notified :: "response \<Rightarrow> job_entry \<Rightarrow> job_entry \<times> effect list" where
  "on_notified r e =
     (case r of Completed \<Rightarrow> finish e | Raised x \<Rightarrow> finish e | _ \<Rightarrow> (e, []))"

text \<open>The code that follows each suspension point when the awaited call answers \<open>r\<close>.\<close>

definition continue :: "credential_handler \<Rightarrow> time \<Rightarrow> response \<Rightarrow> job_entry \<Rightarrow> job_entry \<times> effect list" where
  "continue h now r e =
     (case task_pc e of
        NotStarted \<Rightarrow>
          (let e' = e\<lparr>job := (job e)\<lparr>status := RUNNING, started_at := Some now\<rparr>,
                       task_pc := AwaitJobStarted\<rparr>
           in (e', [loop_broadcast e' JOB_STARTED
                      (Started (length (selected_trains (job e'))))]))
      | AwaitJobStarted \<Rightarrow> (if r = Completed then loop_top e else (e, []))
      | AwaitSearch \<Rightarrow> on_search h now False r e
      | AwaitSearchRelogin \<Rightarrow> on_search_relogin now r e
      | AwaitSearchRetry \<Rightarrow> on_search h now True r e
      | AwaitSearchProgress trains \<Rightarrow>
          (if r = Completed then try_trains now trains (selected_trains (job e)) e else (e, []))
      | AwaitReserveAttempt trains rest idx sb \<Rightarrow>
          (if r = Completed
           then (e\<lparr>task_pc := AwaitReserve trains rest idx sb\<rparr>, [reserve_call idx sb])
           else (e, []))
      | AwaitReserve trains rest idx sb \<Rightarrow> on_reserve h now False trains rest idx sb r e
      | AwaitReserveRelogin trains rest idx sb \<Rightarrow> on_reserve_relogin trains rest idx sb r e
      | AwaitReserveRetry trains rest idx sb \<Rightarrow> on_reserve h now True trains rest idx sb r e
      | AwaitReserveFailed trains rest code msg \<Rightarrow>
          (if r = Completed then after_reserve_failed now trains rest code msg e else (e, []))
      | AwaitReserveSuccess res sb \<Rightarrow>
          (if r = Completed
           then (e\<lparr>task_pc := AwaitCompletedSuccess res sb\<rparr>,
                 [loop_broadcast e JOB_COMPLETED
                    (CompletedSuccess (attempt_count (job e)) res sb)])
           else (e, []))
      | AwaitCompletedSuccess res sb \<Rightarrow>
          (if r = Completed then notify_success res sb e else (e, []))
      | AwaitNotifySuccess \<Rightarrow> on_notified r e
      | AwaitCompletedFailed msg \<Rightarrow> (if r = Completed then notify_failed msg e else (e, []))
      | AwaitNotifyFailed \<Rightarrow> on_notified r e
      | AwaitCompletedException \<Rightarrow> (if r = Completed then finish e else (e, []))
      | AwaitSleep \<Rightarrow> (if r = Completed then loop_top e else (e, []))
      | Finished \<Rightarrow> (e, []))"

text \<open>
  The suspension points inside the outer \<open>try\<close> of lines 251-528. The broadcast of
  \<open>JOB_STARTED\<close> (line 219) comes before it, and the broadcast of line 541 is inside the
  handler of \<open>Exception\<close>.
\<close>

definition in_try :: "pc \<Rightarrow> bool" where
  "in_try p = (p \<notin> {NotStarted, AwaitJobStarted, AwaitCompletedException, Finished})"

text \<open>
  \<open>asyncio.CancelledError\<close> thrown into the coroutine at its suspension point: inside
  the \<open>try\<close> it reaches the handler of lines 530-534, elsewhere it leaves the coroutine.
\<close>

definition throw_cancelled :: "time \<Rightarrow> job_entry \<Rightarrow> job_entry \<times> effect list" where
  "throw_cancelled now e =
     (let e1 = e\<lparr>must_cancel := False\<rparr>
      in if in_try (task_pc e1) \<and> \<not> cancelled (job e1)
         then finish (e1\<lparr>job := (job e1)\<lparr>status := CANCELLED, completed_at := Some now\<rparr>\<rparr>)
         else finish e1)"

text \<open>One step of the task: it is resumed with the answer \<open>r\<close> of the call it awaits.\<close>

definition resume :: "credential_handler \<Rightarrow> time \<Rightarrow> response \<Rightarrow> job_entry \<Rightarrow> job_entry \<times> effect list" where
  "resume h now r e =
     (if task_done e then (e, [])
      else if must_cancel e then throw_cancelled now e
      else continue h now r e)"

subsection \<open>Interleavings\<close>

text \<open>
  What can happen to a job: its task is resumed, \<open>cancel_job\<close> is called on it, or its
  task is cancelled from outside (\<open>_destroy_session_internal\<close>, line 208 of session.py).
\<close>

datatype event = Resume time response | CancelJob time | TaskCancel

definition apply_event :: "credential_handler \<Rightarrow> event \<Rightarrow> job_entry \<Rightarrow> job_entry \<times> effect list" where
  "apply_event h ev e =
     (case ev of
        Resume now r \<Rightarrow> resume h now r e
      | CancelJob now \<Rightarrow> (case cancel_found now e of None \<Rightarrow> (e, []) | Some x \<Rightarrow> x)
      | TaskCancel \<Rightarrow> (task_cancel e, []))"

text \<open>The entries a job passes through, the first being the one it starts from.\<close>

fun run :: "credential_handler \<Rightarrow> event list \<Rightarrow> job_entry \<Rightarrow> job_entry list" where
  "run h [] e = [e]"
| "run h (ev # evs) e = e # run h evs (fst (apply_event h ev e))"

definition exec :: "credential_handler \<Rightarrow> event list \<Rightarrow> job_entry \<Rightarrow> job_entry" where
  "exec h evs e = last (run h evs e)"

definition status_sequence :: "credential_handler \<Rightarrow> event list \<Rightarrow> job_entry \<Rightarrow> job_status list" where
  "status_sequence h evs e = remdups_adj (map (\<lambda>x. status (job x)) (run h evs e))"

text \<open>The calls issued along the way, in order.\<close>

fun trace :: "credential_handler \<Rightarrow> event list \<Rightarrow> job_entry \<Rightarrow> effect list" where
  "trace h [] e = []"
| "trace h (ev # evs) e =
     snd (apply_event h ev e) @ trace h evs (fst (apply_event h ev e))"

section \<open>The calls of the provider (api/services/rail_service.py)\<close>

text \<open>
  The client of the provider (the \<open>srtgo\<close> package) is not part of the repository. What
  the body of the \<open>try\<close> block of a \<open>RailService\<close> method does is given from outside: it
  runs to its \<open>return\<close> with the normalised value, or an exception is raised in it. The
  re-authentication condition (\<open>SRTLoginError\<close>, \<open>NeedToLoginError\<close>) is an \<open>Exception\<close>.
\<close>

datatype 'a outcome = Returns 'a | Raises exn

text \<open>\<open>str(e)\<close>: the text the exception was built with.\<close>

fun str :: "exn \<Rightarrow> string" where
  "str (LoginRequired msg) = msg"
| "str (RailServiceError code msg) = msg"
| "str (OtherException msg) = msg"

text \<open>
  \<open>sub in s\<close>. A text is held as its UTF-8 bytes; one well-formed text occurs in another
  as characters exactly when it does as bytes.
\<close>

fun contains :: "string \<Rightarrow> string \<Rightarrow> bool" where
  "contains sub [] = (sub = [])"
| "contains sub (c # cs) = (prefix sub (c # cs) \<or> contains sub cs)"

text \<open>
  The words that the handlers look for in the text of an exception:
  \<open>word_station\<close> is the literal of line 312 (U+C5ED);
  \<open>word_sold_out\<close> is the literal of line 431 (U+B9E4, U+C9C4);
  \<open>word_seats_left\<close> is the literal of line 431 (U+C794, U+C5EC, U+C11D);
  \<open>word_duplicate\<close> is the literal of lines 436 and 538 (U+C911, U+BCF5);
  \<open>word_already\<close> is the literal of lines 436 and 538 (U+C774, U+BBF8);
  \<open>word_standby\<close> is the literal of line 533 (U+B300, U+AE30);
  \<open>word_impossible\<close> is the literal of line 533 (U+BD88, U+AC00);
  \<open>word_none\<close> is the literal of line 533 (U+C5C6).
\<close>

definition word_station :: string where
  "word_station =
     [CHR 0xEC, CHR 0x97, CHR 0xAD]"

definition word_sold_out :: string where
  "word_sold_out =
     [CHR 0xEB, CHR 0xA7, CHR 0xA4, CHR 0xEC, CHR 0xA7, CHR 0x84]"

definition word_seats_left :: string where
  "word_seats_left =
     [CHR 0xEC, CHR 0x9E, CHR 0x94, CHR 0xEC, CHR 0x97, CHR 0xAC, CHR 0xEC, CHR 0x84, CHR 0x9D]"

definition word_duplicate :: string where
  "word_duplicate =
     [CHR 0xEC, CHR 0xA4, CHR 0x91, CHR 0xEB, CHR 0xB3, CHR 0xB5]"

definition word_already :: string where
  "word_already =
     [CHR 0xEC, CHR 0x9D, CHR 0xB4, CHR 0xEB, CHR 0xAF, CHR 0xB8]"

definition word_standby :: string where
  "word_standby =
     [CHR 0xEB, CHR 0x8C, CHR 0x80, CHR 0xEA, CHR 0xB8, CHR 0xB0]"

definition word_impossible :: string where
  "word_impossible =
     [CHR 0xEB, CHR 0xB6, CHR 0x88, CHR 0xEA, CHR 0xB0, CHR 0x80]"

definition word_none :: string where
  "word_none =
     [CHR 0xEC, CHR 0x97, CHR 0x86]"

text \<open>
  The entries of \<open>ERROR_MESSAGES\<close> (api/core/exceptions.py) that the three methods look
  up, and \<open>get_error_message\<close>.
\<close>

definition ERROR_MESSAGES :: "(string \<times> string) list" where
  "ERROR_MESSAGES =
     [(''TRAIN_SEARCH_NO_RESULTS'',
       [CHR 0xEA, CHR 0xB2, CHR 0x80, CHR 0xEC, CHR 0x83, CHR 0x89, CHR 0x20, CHR 0xEA,
        CHR 0xB2, CHR 0xB0, CHR 0xEA, CHR 0xB3, CHR 0xBC, CHR 0xEA, CHR 0xB0, CHR 0x80,
        CHR 0x20, CHR 0xEC, CHR 0x97, CHR 0x86, CHR 0xEC, CHR 0x8A, CHR 0xB5, CHR 0xEB,
        CHR 0x8B, CHR 0x88, CHR 0xEB, CHR 0x8B, CHR 0xA4]),
      (''TRAIN_SEARCH_INVALID_STATION'',
       [CHR 0xEC, CHR 0x98, CHR 0xAC, CHR 0xEB, CHR 0xB0, CHR 0x94, CHR 0xEB, CHR 0xA5,
        CHR 0xB4, CHR 0xEC, CHR 0xA7, CHR 0x80, CHR 0x20, CHR 0xEC, CHR 0x95, CHR 0x8A,
        CHR 0xEC, CHR 0x9D, CHR 0x80, CHR 0x20, CHR 0xEC, CHR 0x97, CHR 0xAD, CHR 0x20,
        CHR 0xEC, CHR 0x9D, CHR 0xB4, CHR 0xEB, CHR 0xA6, CHR 0x84, CHR 0xEC, CHR 0x9E,
        CHR 0x85, CHR 0xEB, CHR 0x8B, CHR 0x88, CHR 0xEB, CHR 0x8B, CHR 0xA4]),
      (''RESERVE_SOLD_OUT'',
       [CHR 0xEB, CHR 0xA7, CHR 0xA4, CHR 0xEC, CHR 0xA7, CHR 0x84, CHR 0xEB, CHR 0x90,
        CHR 0x98, CHR 0xEC, CHR 0x97, CHR 0x88, CHR 0xEC, CHR 0x8A, CHR 0xB5, CHR 0xEB,
        CHR 0x8B, CHR 0x88, CHR 0xEB, CHR 0x8B, CHR 0xA4]),
      (''RESERVE_DUPLICATE'',
       [CHR 0xEC, CHR 0x9D, CHR 0xB4, CHR 0xEB, CHR 0xAF, CHR 0xB8, CHR 0x20, CHR 0xEC,
        CHR 0x98, CHR 0x88, CHR 0xEC, CHR 0x95, CHR 0xBD, CHR 0xEB, CHR 0x90, CHR 0x9C,
        CHR 0x20, CHR 0xEC, CHR 0x97, CHR 0xB4, CHR 0xEC, CHR 0xB0, CHR 0xA8, CHR 0xEC,
        CHR 0x9E, CHR 0x85, CHR 0xEB, CHR 0x8B, CHR 0x88, CHR 0xEB, CHR 0x8B, CHR 0xA4]),
      (''RESERVE_FAILED'',
       [CHR 0xEC, CHR 0x98, CHR 0x88, CHR 0xEC, CHR 0x95, CHR 0xBD, CHR 0xEC, CHR 0x97,
        CHR 0x90, CHR 0x20, CHR 0xEC, CHR 0x8B, CHR 0xA4, CHR 0xED, CHR 0x8C, CHR 0xA8,
        CHR 0xED, CHR 0x96, CHR 0x88, CHR 0xEC, CHR 0x8A, CHR 0xB5, CHR 0xEB, CHR 0x8B,
        CHR 0x88, CHR 0xEB, CHR 0x8B, CHR 0xA4])]"

definition get_error_message :: "string \<Rightarrow> string" where
  "get_error_message code = (case map_of ERROR_MESSAGES code of Some msg \<Rightarrow> msg | None \<Rightarrow> code)"

text \<open>The message of lines 382 and 469, and the message of lines 480, 486 and 536.\<close>

definition train_not_found_message :: string where
  "train_not_found_message =
     [CHR 0xEC, CHR 0x97, CHR 0xB4, CHR 0xEC, CHR 0xB0, CHR 0xA8, CHR 0xEB, CHR 0xA5, CHR 0xBC,
      CHR 0x20, CHR 0xEC, CHR 0xB0, CHR 0xBE, CHR 0xEC, CHR 0x9D, CHR 0x84, CHR 0x20, CHR 0xEC,
      CHR 0x88, CHR 0x98, CHR 0x20, CHR 0xEC, CHR 0x97, CHR 0x86, CHR 0xEC, CHR 0x8A, CHR 0xB5,
      CHR 0xEB, CHR 0x8B, CHR 0x88, CHR 0xEB, CHR 0x8B, CHR 0xA4, CHR 0x2E, CHR 0x20, CHR 0xEB,
      CHR 0x8B, CHR 0xA4, CHR 0xEC, CHR 0x8B, CHR 0x9C, CHR 0x20, CHR 0xEA, CHR 0xB2, CHR 0x80,
      CHR 0xEC, CHR 0x83, CHR 0x89, CHR 0xED, CHR 0x95, CHR 0xB4, CHR 0xEC, CHR 0xA3, CHR 0xBC,
      CHR 0xEC, CHR 0x84, CHR 0xB8, CHR 0xEC, CHR 0x9A, CHR 0x94, CHR 0x2E]"

definition standby_not_available_message :: string where
  "standby_not_available_message =
     [CHR 0xED, CHR 0x95, CHR 0xB4, CHR 0xEB, CHR 0x8B, CHR 0xB9, CHR 0x20, CHR 0xEC, CHR 0x97,
      CHR 0xB4, CHR 0xEC, CHR 0xB0, CHR 0xA8, CHR 0xEB, CHR 0x8A, CHR 0x94, CHR 0x20, CHR 0xEC,
      CHR 0x98, CHR 0x88, CHR 0xEC, CHR 0x95, CHR 0xBD, CHR 0xEB, CHR 0x8C, CHR 0x80, CHR 0xEA,
      CHR 0xB8, CHR 0xB0, CHR 0xEA, CHR 0xB0, CHR 0x80, CHR 0x20, CHR 0xEB, CHR 0xB6, CHR 0x88,
      CHR 0xEA, CHR 0xB0, CHR 0x80, CHR 0xEB, CHR 0x8A, CHR 0xA5, CHR 0xED, CHR 0x95, CHR 0xA9,
      CHR 0xEB, CHR 0x8B, CHR 0x88, CHR 0xEB, CHR 0x8B, CHR 0xA4, CHR 0x2E]"

text \<open>The text before \<open>{error_msg}\<close> in the f-string of line 545.\<close>

definition standby_failed_prefix :: string where
  "standby_failed_prefix =
     [CHR 0xEC, CHR 0x98, CHR 0x88, CHR 0xEC, CHR 0x95, CHR 0xBD, CHR 0xEB, CHR 0x8C, CHR 0x80,
      CHR 0xEA, CHR 0xB8, CHR 0xB0, CHR 0x20, CHR 0xEC, CHR 0x8B, CHR 0xA0, CHR 0xEC, CHR 0xB2,
      CHR 0xAD, CHR 0x20, CHR 0xEC, CHR 0x8B, CHR 0xA4, CHR 0xED, CHR 0x8C, CHR 0xA8, CHR 0x3A,
      CHR 0x20]"

text \<open>
  \<open>search_trains\<close> (lines 229-321): every \<open>Exception\<close> of the body is caught and a
  \<open>RailServiceError\<close> raised in its place.
\<close>

definition search_trains :: "train list outcome \<Rightarrow> response" where
  "search_trains body =
     (case body of
        Returns normalized_trains \<Rightarrow> Trains normalized_trains
      | Raises e \<Rightarrow>
          (let error_msg = str e
           in if contains word_station error_msg
              then Raised (RailServiceError ''TRAIN_SEARCH_INVALID_STATION''
                             (get_error_message ''TRAIN_SEARCH_INVALID_STATION''))
              else Raised (RailServiceError ''TRAIN_SEARCH_NO_RESULTS''
                             (get_error_message ''TRAIN_SEARCH_NO_RESULTS''))))"

text \<open>
  \<open>reserve\<close> (lines 360-445). \<open>last_trains\<close> is the list that the last search of this
  \<open>RailService\<close> object cached; a negative index passes the test of line 379 and is
  looked up from the end.
\<close>

definition reserve :: "train list \<Rightarrow> int \<Rightarrow> reservation outcome \<Rightarrow> response" where
  "reserve last_trains train_index body =
     (if int (length last_trains) \<le> train_index
      then Raised (RailServiceError ''TRAIN_NOT_FOUND'' train_not_found_message)
      else
        (case py_index last_trains train_index of
           None \<Rightarrow> Raised (OtherException index_error_text)
         | Some train \<Rightarrow>
             (case body of
                Returns r \<Rightarrow> Reserved r
              | Raises e \<Rightarrow>
                  (let error_msg = str e
                   in if contains word_sold_out error_msg \<or> contains word_seats_left error_msg
                      then Raised (RailServiceError ''RESERVE_SOLD_OUT''
                                     (get_error_message ''RESERVE_SOLD_OUT''))
                      else if contains word_duplicate error_msg \<or> contains word_already error_msg
                      then Raised (RailServiceError ''RESERVE_DUPLICATE''
                                     (get_error_message ''RESERVE_DUPLICATE''))
                      else Raised (RailServiceError ''RESERVE_FAILED''
                                     (get_error_message ''RESERVE_FAILED''))))))"

text \<open>
  \<open>reserve_standby\<close> (lines 447-546). The test of lines 476-487 asks the cached train
  what \<open>_normalize_train\<close> stored as \<open>standby_available\<close>.
\<close>

definition reserve_standby :: "train list \<Rightarrow> int \<Rightarrow> reservation outcome \<Rightarrow> response" where
  "reserve_standby last_trains train_index body =
     (if int (length last_trains) \<le> train_index
      then Raised (RailServiceError ''TRAIN_NOT_FOUND'' train_not_found_message)
      else
        (case py_index last_trains train_index of
           None \<Rightarrow> Raised (OtherException index_error_text)
         | Some train \<Rightarrow>
             if \<not> standby_available train
             then Raised (RailServiceError ''STANDBY_NOT_AVAILABLE'' standby_not_available_message)
             else
               (case body of
                  Returns r \<Rightarrow> Reserved r
                | Raises e \<Rightarrow>
                    (let error_msg = str e
                     in if contains word_standby error_msg
                           \<and> (contains word_impossible error_msg \<or> contains word_none error_msg)
                        then Raised (RailServiceError ''STANDBY_NOT_AVAILABLE''
                                       standby_not_available_message)
                        else if contains word_duplicate error_msg \<or> contains word_already error_msg
                        then Raised (RailServiceError ''RESERVE_DUPLICATE''
                                       (get_error_message ''RESERVE_DUPLICATE''))
                        else Raised (RailServiceError ''STANDBY_FAILED''
                                       (standby_failed_prefix @ error_msg))))))"

text \<open>Whether a call of the loop was answered with the re-authentication condition.\<close>

fun login_required :: "response \<Rightarrow> bool" where
  "login_required (Raised (LoginRequired msg)) = True"
| "login_required r = False"

section \<open>Status and task stay consistent\<close>

text \<open>
  The status a job has at each suspension point of its task. A task that has been asked
  to cancel by \<open>cancel_job\<close> waits at a point of the pending or running phase with the job
  already marked cancelled; a task that has been asked to cancel from outside waits with
  the job as it was.
\<close>

definition terminal :: "job_status \<Rightarrow> bool" where
  "terminal s = (s \<in> {SUCCESS, FAILED, CANCELLED})"

fun phase :: "pc \<Rightarrow> job_status option" where
  "phase NotStarted = Some PENDING"
| "phase (AwaitReserveSuccess r sb) = Some SUCCESS"
| "phase (AwaitCompletedSuccess r sb) = Some SUCCESS"
| "phase AwaitNotifySuccess = Some SUCCESS"
| "phase (AwaitCompletedFailed m) = Some FAILED"
| "phase AwaitNotifyFailed = Some FAILED"
| "phase AwaitCompletedException = Some FAILED"
| "phase Finished = None"
| "phase p = Some RUNNING"

definition consistent :: "job_entry \<Rightarrow> bool" where
  "consistent e =
     (case phase (task_pc e) of
        None \<Rightarrow> True
      | Some p \<Rightarrow>
          (status (job e) = p \<and> \<not> cancelled (job e)
           \<and> \<not> (must_cancel e \<and> terminal p \<and> in_try (task_pc e)))
          \<or> (p \<in> {PENDING, RUNNING} \<and> status (job e) = CANCELLED \<and> cancelled (job e)
              \<and> must_cancel e))"

definition follows :: "job_status \<Rightarrow> job_status \<Rightarrow> bool" where
  "follows a b =
     ((a = PENDING \<and> b \<in> {RUNNING, CANCELLED}) \<or> (a = RUNNING \<and> terminal b))"

definition step_ok :: "job_entry \<Rightarrow> job_entry \<Rightarrow> bool" where
  "step_ok e e' =
     (consistent e'
      \<and> (if terminal (status (job e)) then job e' = job e
         else status (job e') = status (job e) \<or> follows (status (job e)) (status (job e'))))"

definition live :: "job_entry \<Rightarrow> bool" where
  "live e = (status (job e) = RUNNING \<and> \<not> cancelled (job e) \<and> \<not> must_cancel e)"

lemma finish_ok: "step_ok e (fst (finish e))"
  by (simp add: finish_def step_ok_def consistent_def)

lemma on_exception_ok: "live e \<Longrightarrow> step_ok e (fst (on_exception now msg e))"
  by (simp add: on_exception_def step_ok_def consistent_def live_def terminal_def follows_def Let_def)

lemma sleep_ok: "live e \<Longrightarrow> step_ok e (fst (sleep e))"
  by (simp add: sleep_def step_ok_def consistent_def live_def terminal_def follows_def)

lemmas inv_defs = step_ok_def consistent_def live_def terminal_def follows_def

lemma on_rail_service_error_ok: "live e \<Longrightarrow> step_ok e (fst (on_rail_service_error now code msg e))"
  by (simp add: on_rail_service_error_def sleep_ok Let_def) (simp_all add: inv_defs)

lemma loop_top_ok: "live e \<Longrightarrow> step_ok e (fst (loop_top e))"
  by (simp add: loop_top_def inv_defs)

lemma after_search_ok: "live e \<Longrightarrow> step_ok e (fst (after_search now trains e))"
  by (simp add: after_search_def on_exception_ok split: option.splits) (simp_all add: inv_defs)

lemma try_trains_ok: "live e \<Longrightarrow> step_ok e (fst (try_trains now trains idxs e))"
  by (simp add: try_trains_def on_exception_ok sleep_ok split: scan.splits)
     (simp_all add: inv_defs)

lemma reserve_failed_ok: "live e \<Longrightarrow> step_ok e (fst (reserve_failed trains rest idx sb code msg e))"
  by (simp add: reserve_failed_def inv_defs)

lemma after_reserve_failed_ok: "live e \<Longrightarrow> step_ok e (fst (after_reserve_failed now trains rest code msg e))"
  by (simp add: after_reserve_failed_def on_rail_service_error_ok try_trains_ok)

lemma reserve_succeeded_ok: "live e \<Longrightarrow> step_ok e (fst (reserve_succeeded now r sb e))"
  by (simp add: reserve_succeeded_def inv_defs Let_def)

lemma unchanged_ok: "consistent e \<Longrightarrow> step_ok e e"
  by (simp add: step_ok_def)

lemma on_search_ok: "live e \<Longrightarrow> consistent e \<Longrightarrow> step_ok e (fst (on_search h now retry r e))"
  by (simp add: on_search_def unchanged_ok on_exception_ok on_rail_service_error_ok after_search_ok
      split: response.splits exn.splits option.splits)
     (simp_all add: inv_defs)

lemma on_search_relogin_ok: "live e \<Longrightarrow> consistent e \<Longrightarrow> step_ok e (fst (on_search_relogin now r e))"
  by (simp add: on_search_relogin_def unchanged_ok on_rail_service_error_ok split: response.splits)
     (simp_all add: inv_defs relogin_done_def)

lemma on_reserve_ok: "live e \<Longrightarrow> consistent e \<Longrightarrow> step_ok e (fst (on_reserve h now retry trains rest idx sb r e))"
  by (simp add: on_reserve_def unchanged_ok on_exception_ok reserve_failed_ok reserve_succeeded_ok
      split: response.splits exn.splits option.splits)
     (simp_all add: inv_defs)

lemma on_reserve_relogin_ok: "live e \<Longrightarrow> consistent e \<Longrightarrow> step_ok e (fst (on_reserve_relogin trains rest idx sb r e))"
  by (simp add: on_reserve_relogin_def unchanged_ok reserve_failed_ok split: response.splits)
     (simp_all add: inv_defs relogin_done_def)

lemma consistent_live:
  "consistent e \<Longrightarrow> \<not> must_cancel e \<Longrightarrow> phase (task_pc e) = Some RUNNING \<Longrightarrow> live e"
  by (simp add: consistent_def live_def)

lemma continue_ok:
  assumes c: "consistent e" and m: "\<not> must_cancel e"
  shows "step_ok e (fst (continue h now r e))"
proof (cases "phase (task_pc e) = Some RUNNING")
  case True
  with c m have l: "live e"
    by (simp add: consistent_live)
  have pc: "\<And>p. phase p = Some RUNNING \<Longrightarrow> step_ok e (e\<lparr>task_pc := p\<rparr>)"
    using l by (simp add: inv_defs)
  from True c l show ?thesis
    by (cases "task_pc e")
       (simp_all add: continue_def unchanged_ok loop_top_ok on_search_ok on_search_relogin_ok
          try_trains_ok on_reserve_ok on_reserve_relogin_ok after_reserve_failed_ok pc)
next
  case False
  with c m show ?thesis
    by (cases "task_pc e")
       (simp_all add: continue_def notify_success_def notify_failed_def on_notified_def
          finish_def inv_defs Let_def split: response.splits)
qed

lemma throw_cancelled_ok:
  assumes c: "consistent e" and m: "must_cancel e"
  shows "step_ok e (fst (throw_cancelled now e))"
proof (cases "in_try (task_pc e) \<and> \<not> cancelled (job e)")
  case True
  with c m have s: "status (job e) = RUNNING"
    by (cases "task_pc e") (simp_all add: consistent_def terminal_def in_try_def)
  from True have "fst (throw_cancelled now e) =
      e\<lparr>must_cancel := False,
        job := (job e)\<lparr>status := CANCELLED, completed_at := Some now\<rparr>,
        task_pc := Finished\<rparr>"
    by (simp add: throw_cancelled_def finish_def Let_def)
  with s show ?thesis
    by (simp add: step_ok_def consistent_def terminal_def follows_def)
next
  case False
  then have "fst (throw_cancelled now e) = e\<lparr>must_cancel := False, task_pc := Finished\<rparr>"
    by (auto simp add: throw_cancelled_def finish_def Let_def)
  then show ?thesis
    by (simp add: step_ok_def consistent_def)
qed

lemma resume_ok: "consistent e \<Longrightarrow> step_ok e (fst (resume h now r e))"
  by (simp add: resume_def continue_ok throw_cancelled_ok unchanged_ok)

lemma cancel_found_terminal: "terminal (status (job e)) \<Longrightarrow> cancel_found now e = None"
  by (cases "status (job e)") (simp_all add: cancel_found_def terminal_def)

definition cancelled_entry :: "time \<Rightarrow> job_entry \<Rightarrow> job_entry" where
  "cancelled_entry now e =
     e\<lparr>job := (job e)\<lparr>cancelled := True, status := CANCELLED, completed_at := Some now\<rparr>,
       must_cancel := (\<not> task_done e \<or> must_cancel e)\<rparr>"

lemma cancel_found_active:
  assumes "\<not> terminal (status (job e))"
  shows "cancel_found now e =
           Some (cancelled_entry now e,
                 [Broadcast (job_session_id (job e)) JOB_CANCELLED (job_id (job e))
                    Cancelled_payload])"
proof -
  from assms have "status (job e) = PENDING \<or> status (job e) = RUNNING"
    by (cases "status (job e)") (simp_all add: terminal_def)
  then show ?thesis
    by (cases "task_done e")
       (auto simp add: cancel_found_def cancelled_entry_def task_cancel_def task_done_def Let_def)
qed

lemma cancelled_entry_ok:
  assumes c: "consistent e" and t: "\<not> terminal (status (job e))"
  shows "step_ok e (cancelled_entry now e)"
proof -
  from t have st: "status (job e) = PENDING \<or> status (job e) = RUNNING"
    by (cases "status (job e)") (simp_all add: terminal_def)
  from c t have ph: "task_pc e = Finished \<or> phase (task_pc e) = Some (status (job e))"
    by (cases "task_pc e") (auto simp add: consistent_def terminal_def)
  from st ph show ?thesis
    by (auto simp add: cancelled_entry_def step_ok_def consistent_def terminal_def follows_def
        task_done_def)
qed

lemma cancel_found_ok:
  assumes c: "consistent e" and f: "cancel_found now e = Some (e', out)"
  shows "step_ok e e'"
proof -
  from f have t: "\<not> terminal (status (job e))"
    using cancel_found_terminal [of e now] by auto
  from f cancel_found_active [OF t, of now] have "e' = cancelled_entry now e"
    by simp
  with cancelled_entry_ok [OF c t] show ?thesis
    by simp
qed

text \<open>
  A cancellation of the task from outside \<open>cancel_job\<close> that arrives while the task is
  still inside the \<open>try\<close> of the loop although the job has already ended \<open>SUCCESS\<close> or
  \<open>FAILED\<close> (the task is sending the closing broadcast or notification).
\<close>

definition late_cancel :: "event \<Rightarrow> job_entry \<Rightarrow> bool" where
  "late_cancel ev e =
     (ev = TaskCancel \<and> in_try (task_pc e) \<and> terminal (status (job e)) \<and> \<not> cancelled (job e))"

lemma task_cancel_ok:
  assumes c: "consistent e" and l: "\<not> late_cancel TaskCancel e"
  shows "step_ok e (task_cancel e)"
proof (cases "task_done e")
  case True
  with c show ?thesis
    by (simp add: task_cancel_def unchanged_ok)
next
  case False
  from c l have "consistent (e\<lparr>must_cancel := True\<rparr>)"
    by (cases "task_pc e") (auto simp add: consistent_def late_cancel_def terminal_def)
  with False show ?thesis
    by (simp add: task_cancel_def step_ok_def)
qed

lemma apply_event_ok:
  assumes c: "consistent e" and l: "\<not> late_cancel ev e"
  shows "step_ok e (fst (apply_event h ev e))"
proof (cases ev)
  case (Resume now r)
  with c show ?thesis
    by (simp add: apply_event_def resume_ok)
next
  case (CancelJob now)
  show ?thesis
  proof (cases "cancel_found now e")
    case None
    with c CancelJob show ?thesis
      by (simp add: apply_event_def unchanged_ok)
  next
    case (Some x)
    with c CancelJob cancel_found_ok [of e now "fst x" "snd x"] show ?thesis
      by (simp add: apply_event_def)
  qed
next
  case TaskCancel
  with c l show ?thesis
    by (simp add: apply_event_def task_cancel_ok)
qed

fun allowed :: "job_status \<Rightarrow> job_status list list" where
  "allowed PENDING =
     [[PENDING], [PENDING, RUNNING], [PENDING, RUNNING, SUCCESS], [PENDING, RUNNING, FAILED],
      [PENDING, RUNNING, CANCELLED], [PENDING, CANCELLED]]"
| "allowed RUNNING =
     [[RUNNING], [RUNNING, SUCCESS], [RUNNING, FAILED], [RUNNING, CANCELLED]]"
| "allowed s = [[s]]"

lemma run_Cons: "\<exists>rest. run h evs e = e # rest"
  by (cases evs) simp_all

lemma status_sequence_Nil: "status_sequence h [] e = [status (job e)]"
  by (simp add: status_sequence_def)

lemma status_sequence_Cons:
  "status_sequence h (ev # evs) e =
     (if status (job (fst (apply_event h ev e))) = status (job e)
      then status_sequence h evs (fst (apply_event h ev e))
      else status (job e) # status_sequence h evs (fst (apply_event h ev e)))"
proof -
  obtain rest where r: "run h evs (fst (apply_event h ev e)) = fst (apply_event h ev e) # rest"
    using run_Cons by blast
  show ?thesis
    by (simp add: status_sequence_def r)
qed

lemma allowed_same: "[s] \<in> set (allowed s)"
  by (cases s) simp_all

lemma allowed_step: "follows a b \<Longrightarrow> l \<in> set (allowed b) \<Longrightarrow> a # l \<in> set (allowed a)"
  by (cases a; cases b) (auto simp add: follows_def terminal_def)

lemma step_ok_status:
  "step_ok e e' \<Longrightarrow> status (job e') = status (job e) \<or> follows (status (job e)) (status (job e'))"
  by (auto simp add: step_ok_def split: if_splits)

text \<open>A run along which no event is a late cancellation (\<open>late_cancel\<close>).\<close>

fun admissible :: "credential_handler \<Rightarrow> event list \<Rightarrow> job_entry \<Rightarrow> bool" where
  "admissible h [] e = True"
| "admissible h (ev # evs) e =
     (\<not> late_cancel ev e \<and> admissible h evs (fst (apply_event h ev e)))"

lemma status_sequence_allowed:
  "consistent e \<Longrightarrow> admissible h evs e \<Longrightarrow>
     status_sequence h evs e \<in> set (allowed (status (job e)))"
proof (induction evs arbitrary: e)
  case Nil
  then show ?case
    by (simp add: status_sequence_Nil allowed_same)
next
  case (Cons ev evs)
  let ?e' = "fst (apply_event h ev e)"
  from Cons.prems have "\<not> late_cancel ev e"
    by simp
  with Cons.prems have ok: "step_ok e ?e'"
    by (simp add: apply_event_ok)
  then have c': "consistent ?e'"
    by (simp add: step_ok_def)
  from Cons.IH [OF c'] Cons.prems
  have ih: "status_sequence h evs ?e' \<in> set (allowed (status (job ?e')))"
    by simp
  from step_ok_status [OF ok] show ?case
  proof
    assume "status (job ?e') = status (job e)"
    with ih show ?thesis
      by (simp add: status_sequence_Cons)
  next
    assume f: "follows (status (job e)) (status (job ?e'))"
    then have "status (job ?e') \<noteq> status (job e)"
      by (auto simp add: follows_def terminal_def)
    with allowed_step [OF f ih] show ?thesis
      by (simp add: status_sequence_Cons)
  qed
qed

lemma run_nth_0: "run h evs e ! 0 = e"
  by (cases evs) simp_all

lemma terminal_frozen:
  "consistent e \<Longrightarrow> admissible h evs e \<Longrightarrow> i < length evs \<Longrightarrow>
     terminal (status (job (run h evs e ! i))) \<Longrightarrow>
     job (run h evs e ! Suc i) = job (run h evs e ! i)"
proof (induction evs arbitrary: e i)
  case Nil
  then show ?case by simp
next
  case (Cons ev evs)
  let ?e' = "fst (apply_event h ev e)"
  from Cons.prems have "\<not> late_cancel ev e"
    by simp
  with Cons.prems have ok: "step_ok e ?e'"
    by (simp add: apply_event_ok)
  show ?case
  proof (cases i)
    case 0
    with Cons.prems ok show ?thesis
      by (simp add: run_nth_0 step_ok_def)
  next
    case (Suc k)
    from ok have c': "consistent ?e'"
      by (simp add: step_ok_def)
    from Cons.IH [OF c', of k] Cons.prems Suc show ?thesis
      by simp
  qed
qed

lemma create_job_consistent: "consistent (create_job jid now s notif r)"
  by (simp add: create_job_def consistent_def)

lemma allowed_PENDING_shape:
  "l \<in> set (allowed PENDING) \<Longrightarrow>
     l = [PENDING, CANCELLED] \<or> (\<exists>T. terminal T \<and> prefix l [PENDING, RUNNING, T])"
  by (auto simp add: terminal_def)

section \<open>Properties of the session registry\<close>

definition example_token :: bytes where
  "example_token = rev (map of_char ''1234567890'' @ [0] @ map of_char ''s3cret!'')"

lemma example_token_encrypted:
  "encrypt reversing_handler [] (ascii ''1234567890'') (ascii ''s3cret!'') = Inr example_token"
  by (simp add: encrypt_def reversing_handler_def example_token_def codec_eval)

definition example_session :: session where
  "example_session =
     \<lparr>session_id = ''s-1'', rail_type = ''SRT'',
      encrypted_credentials = example_token,
      user_info = \<lparr>name = Some ''Kim'', membership_number = Some ''1234567890''\<rparr>,
      expires_at = 1800, rail_client = Some \<lparr>client_handle = 1, has_logout = True\<rparr>,
      jobs = [], websocket_connections = [4]\<rparr>"

definition example_manager :: session_manager where
  "example_manager =
     \<lparr>ttl_minutes = 30, sessions = [''s-1'' \<mapsto> example_session],
      credential_handler = reversing_handler\<rparr>"

text \<open>
  C5. For every session id, \<open>get_session\<close> returns a session exactly when the id is
  present in the registry and \<open>now \<le> expires_at\<close> for that session, returns nothing
  otherwise, and leaves the manager as it was: an expired entry stays in the registry
  and no \<open>expires_at\<close> is extended.
\<close>

theorem get_session_usable:
  "(fst (get_session sid now m) = Some s
      \<longleftrightarrow> sessions m sid = Some s \<and> now \<le> expires_at s)
   \<and> (fst (get_session sid now m) = None
      \<longleftrightarrow> (case sessions m sid of None \<Rightarrow> True | Some s' \<Rightarrow> \<not> now \<le> expires_at s'))
   \<and> snd (get_session sid now m) = m"
  by (auto simp add: get_session_def is_expired_def split: option.splits)

lemma get_session_examples:
  "fst (get_session ''s-1'' 1800 example_manager) = Some example_session
   \<and> fst (get_session ''s-1'' 1801 example_manager) = None
   \<and> snd (get_session ''s-1'' 1801 example_manager) = example_manager
   \<and> fst (get_session ''s-2'' 0 example_manager) = None"
  by (simp add: get_session_def is_expired_def example_manager_def example_session_def)

text \<open>
  C9. \<open>destroy_session\<close> returns true exactly when a session with that id was in the
  registry; the session is then removed, a second call with the same id on the state the
  first call left returns false, and so does a call on any state in which the id is
  absent.
\<close>

theorem destroy_session_result:
  "fst (destroy_session sid m js) = (sessions m sid \<noteq> None)
   \<and> sessions (fst (snd (destroy_session sid m js))) = (sessions m)(sid := None)
   \<and> fst (destroy_session sid (fst (snd (destroy_session sid m js)))
             (fst (snd (snd (destroy_session sid m js))))) = False
   \<and> fst (destroy_session sid (m'\<lparr>sessions := (sessions m')(sid := None)\<rparr>) js') = False"
  by (simp add: destroy_session_def destroy_session_internal_def fun_upd_idem split: option.splits)

lemma destroy_session_absent:
  "sessions m sid = None \<Longrightarrow> destroy_session sid m js = (False, m, js, [])"
  by (simp add: destroy_session_def destroy_session_internal_def)

lemma destroy_session_example:
  "fst (destroy_session ''s-1'' example_manager Map.empty) = True
   \<and> snd (snd (snd (destroy_session ''s-1'' example_manager Map.empty)))
       = [CloseWebsocket 4, Logout \<lparr>client_handle = 1, has_logout = True\<rparr>]"
  by (simp add: destroy_session_def destroy_session_internal_def example_manager_def
      example_session_def cancel_tasks_def)

section \<open>Properties of cancel_job\<close>

lemma cancel_job_missing: "js jid = None \<Longrightarrow> cancel_job jid now js = (False, js, [])"
  by (simp add: cancel_job_def)

lemma cancel_job_terminal:
  "js jid = Some e \<Longrightarrow> terminal (status (job e)) \<Longrightarrow> cancel_job jid now js = (False, js, [])"
  by (simp add: cancel_job_def cancel_found_terminal)

lemma cancel_job_active:
  "js jid = Some e \<Longrightarrow> \<not> terminal (status (job e)) \<Longrightarrow>
     cancel_job jid now js =
       (True, js(jid \<mapsto> cancelled_entry now e),
        [Broadcast (job_session_id (job e)) JOB_CANCELLED (job_id (job e)) Cancelled_payload])"
  by (simp add: cancel_job_def cancel_found_active)

lemma cancelled_entry_stops:
  assumes "\<not> task_done e"
  shows "task_done (fst (resume h now' r (cancelled_entry now e)))
         \<and> job (fst (resume h now' r (cancelled_entry now e))) = job (cancelled_entry now e)"
  using assms
  by (simp add: resume_def throw_cancelled_def finish_def cancelled_entry_def task_done_def
      Let_def)

text \<open>
  C6. \<open>cancel_job\<close> returns false and changes nothing when the job does not exist or its
  status is \<open>SUCCESS\<close>, \<open>FAILED\<close> or \<open>CANCELLED\<close>. Otherwise it sets the cancellation
  flag, sets the status to \<open>CANCELLED\<close>, records the completion time, asks the task to
  cancel when the task is not done (the task then stops at its next resumption without
  touching the job), emits one \<open>JOB_CANCELLED\<close> event and returns true.
\<close>

theorem cancel_job_contract:
  "(js jid = None \<longrightarrow> cancel_job jid now js = (False, js, []))
   \<and> (js jid = Some e \<and> terminal (status (job e))
        \<longrightarrow> cancel_job jid now js = (False, js, []))
   \<and> (js jid = Some e \<and> \<not> terminal (status (job e)) \<longrightarrow>
        (\<exists>e'. cancel_job jid now js =
                 (True, js(jid \<mapsto> e'),
                  [Broadcast (job_session_id (job e)) JOB_CANCELLED (job_id (job e))
                     Cancelled_payload])
              \<and> job e' = (job e)\<lparr>cancelled := True, status := CANCELLED,
                                   completed_at := Some now\<rparr>
              \<and> must_cancel e' = (\<not> task_done e \<or> must_cancel e)
              \<and> task_pc e' = task_pc e \<and> session e' = session e
              \<and> (\<not> task_done e \<longrightarrow>
                    task_done (fst (resume h now' r e'))
                    \<and> job (fst (resume h now' r e')) = job e')))"
proof (intro conjI impI)
  assume "js jid = None"
  then show "cancel_job jid now js = (False, js, [])"
    by (rule cancel_job_missing)
next
  assume "js jid = Some e \<and> terminal (status (job e))"
  then show "cancel_job jid now js = (False, js, [])"
    by (simp add: cancel_job_terminal)
next
  assume a: "js jid = Some e \<and> \<not> terminal (status (job e))"
  show "\<exists>e'. cancel_job jid now js =
                 (True, js(jid \<mapsto> e'),
                  [Broadcast (job_session_id (job e)) JOB_CANCELLED (job_id (job e))
                     Cancelled_payload])
              \<and> job e' = (job e)\<lparr>cancelled := True, status := CANCELLED,
                                   completed_at := Some now\<rparr>
              \<and> must_cancel e' = (\<not> task_done e \<or> must_cancel e)
              \<and> task_pc e' = task_pc e \<and> session e' = session e
              \<and> (\<not> task_done e \<longrightarrow>
                    task_done (fst (resume h now' r e'))
                    \<and> job (fst (resume h now' r e')) = job e')"
  proof (intro exI [of _ "cancelled_entry now e"] conjI impI)
    from a show "cancel_job jid now js =
                 (True, js(jid \<mapsto> cancelled_entry now e),
                  [Broadcast (job_session_id (job e)) JOB_CANCELLED (job_id (job e))
                     Cancelled_payload])"
      by (simp add: cancel_job_active)
  next
    assume "\<not> task_done e"
    then show "task_done (fst (resume h now' r (cancelled_entry now e)))"
      by (simp add: cancelled_entry_stops)
  next
    assume "\<not> task_done e"
    then show "job (fst (resume h now' r (cancelled_entry now e))) = job (cancelled_entry now e)"
      by (simp add: cancelled_entry_stops)
  qed (simp_all add: cancelled_entry_def)
qed

section \<open>Every reservation attempt is justified by the seat policy\<close>

fun attempt_of :: "pc \<Rightarrow> (train list \<times> int \<times> bool) option" where
  "attempt_of (AwaitReserveAttempt trains rest idx sb) = Some (trains, idx, sb)"
| "attempt_of (AwaitReserve trains rest idx sb) = Some (trains, idx, sb)"
| "attempt_of (AwaitReserveRelogin trains rest idx sb) = Some (trains, idx, sb)"
| "attempt_of (AwaitReserveRetry trains rest idx sb) = Some (trains, idx, sb)"
| "attempt_of p = None"

definition attempt_ok :: "seat_type \<Rightarrow> bool \<Rightarrow> train list \<Rightarrow> int \<Rightarrow> bool \<Rightarrow> bool" where
  "attempt_ok st use_sb trains idx sb =
     (case py_index trains idx of
        None \<Rightarrow> False
      | Some tr \<Rightarrow>
          if sb then \<not> can_reserve st tr \<and> use_sb \<and> standby_available tr
          else can_reserve st tr)"

definition justified :: "job_entry \<Rightarrow> bool" where
  "justified e =
     (case attempt_of (task_pc e) of
        None \<Rightarrow> True
      | Some (trains, idx, sb) \<Rightarrow>
          attempt_ok (seat_type (job e)) (use_standby (job e)) trains idx sb)"

definition kept :: "job_entry \<Rightarrow> job_entry \<Rightarrow> bool" where
  "kept e e' =
     (seat_type (job e') = seat_type (job e) \<and> use_standby (job e') = use_standby (job e))"

definition settled :: "job_entry \<Rightarrow> job_entry \<Rightarrow> bool" where
  "settled e e' = (kept e e' \<and> attempt_of (task_pc e') = None)"

definition carried :: "job_entry \<Rightarrow> job_entry \<Rightarrow> bool" where
  "carried e e' = (kept e e' \<and> (if justified e then justified e' else True))"

lemma settled_carried: "settled e e' \<Longrightarrow> carried e e'"
  by (simp add: settled_def carried_def justified_def)

lemma carried_refl: "carried e e"
  by (simp add: carried_def kept_def)

lemma next_attempt_ok:
  "next_attempt j trains idxs = Attempt idx tr sb rest \<Longrightarrow>
     attempt_ok (seat_type j) (use_standby j) trains idx sb"
proof (induction idxs)
  case Nil
  then show ?case by simp
next
  case (Cons i idxs)
  then show ?case
    by (auto simp add: attempt_ok_def is_standby_def can_standby_def
        split: if_splits option.splits)
qed

lemma finish_settled: "settled e (fst (finish e))"
  by (simp add: finish_def settled_def kept_def)

lemma on_exception_settled: "settled e (fst (on_exception now msg e))"
  by (simp add: on_exception_def settled_def kept_def Let_def)

lemma sleep_settled: "settled e (fst (sleep e))"
  by (simp add: sleep_def settled_def kept_def)

lemma on_rail_service_error_settled: "settled e (fst (on_rail_service_error now code msg e))"
  by (simp add: on_rail_service_error_def sleep_settled Let_def) (simp add: settled_def kept_def)

lemma loop_top_settled: "settled e (fst (loop_top e))"
  by (simp add: loop_top_def finish_settled) (simp add: settled_def kept_def)

lemma after_search_settled: "settled e (fst (after_search now trains e))"
  by (simp add: after_search_def on_exception_settled split: option.splits)
     (simp add: settled_def kept_def)

lemma reserve_failed_settled: "settled e (fst (reserve_failed trains rest idx sb code msg e))"
  by (simp add: reserve_failed_def settled_def kept_def)

lemma reserve_succeeded_settled: "settled e (fst (reserve_succeeded now r sb e))"
  by (simp add: reserve_succeeded_def settled_def kept_def Let_def)

lemma try_trains_carried: "carried e (fst (try_trains now trains idxs e))"
proof (cases "next_attempt (job e) trains idxs")
  case (Attempt idx tr sb rest)
  from next_attempt_ok [OF this] Attempt show ?thesis
    by (simp add: try_trains_def carried_def kept_def justified_def)
next
  case Exhausted
  then show ?thesis
    by (simp add: try_trains_def sleep_settled settled_carried)
next
  case IndexError
  then show ?thesis
    by (simp add: try_trains_def on_exception_settled settled_carried)
qed

lemma after_reserve_failed_carried: "carried e (fst (after_reserve_failed now trains rest code msg e))"
  by (simp add: after_reserve_failed_def on_rail_service_error_settled settled_carried
      try_trains_carried)

lemma on_search_carried: "carried e (fst (on_search h now retry r e))"
  by (simp add: on_search_def carried_refl on_exception_settled on_rail_service_error_settled
      after_search_settled settled_carried
      split: response.splits exn.splits option.splits)
     (simp_all add: settled_carried settled_def kept_def)

lemma on_search_relogin_carried: "carried e (fst (on_search_relogin now r e))"
  by (simp add: on_search_relogin_def carried_refl on_rail_service_error_settled settled_carried
      split: response.splits)
     (simp_all add: settled_carried settled_def kept_def relogin_done_def)

lemma on_reserve_carried:
  "task_pc e = AwaitReserve trains rest idx sb \<or> task_pc e = AwaitReserveRetry trains rest idx sb
   \<Longrightarrow> carried e (fst (on_reserve h now retry trains rest idx sb r e))"
  by (simp add: on_reserve_def carried_refl on_exception_settled reserve_failed_settled
      reserve_succeeded_settled settled_carried
      split: response.splits exn.splits option.splits)
     (auto simp add: carried_def kept_def justified_def)

lemma on_reserve_relogin_carried:
  "task_pc e = AwaitReserveRelogin trains rest idx sb
   \<Longrightarrow> carried e (fst (on_reserve_relogin trains rest idx sb r e))"
  by (simp add: on_reserve_relogin_def carried_refl reserve_failed_settled settled_carried
      split: response.splits)
     (auto simp add: carried_def kept_def justified_def relogin_done_def)

lemma notify_settled:
  "settled e (fst (notify_success res sb e))" "settled e (fst (notify_failed msg e))"
  by (simp_all add: notify_success_def notify_failed_def finish_settled)
     (simp_all add: settled_def kept_def)

lemma on_notified_carried: "carried e (fst (on_notified r e))"
  by (simp add: on_notified_def carried_refl finish_settled settled_carried
      split: response.splits)

lemma continue_carried: "carried e (fst (continue h now r e))"
proof (cases "task_pc e")
  case NotStarted
  then show ?thesis
    by (simp add: continue_def Let_def carried_def kept_def justified_def)
next
  case (AwaitReserveAttempt trains rest idx sb)
  then show ?thesis
    by (simp add: continue_def carried_def kept_def justified_def)
next
  case (AwaitReserveSuccess res sb)
  then show ?thesis
    by (simp add: continue_def carried_def kept_def justified_def)
qed (simp_all add: continue_def carried_refl loop_top_settled settled_carried on_search_carried
       on_search_relogin_carried try_trains_carried on_reserve_carried
       on_reserve_relogin_carried after_reserve_failed_carried notify_settled
       on_notified_carried finish_settled)

lemma throw_cancelled_carried: "carried e (fst (throw_cancelled now e))"
  by (simp add: throw_cancelled_def finish_def Let_def carried_def kept_def justified_def)

lemma resume_carried: "carried e (fst (resume h now r e))"
  by (simp add: resume_def carried_refl continue_carried throw_cancelled_carried)

lemma task_cancel_carried: "carried e (task_cancel e)"
  by (cases "task_done e")
     (simp_all add: task_cancel_def carried_def kept_def justified_def split: option.splits)

lemma cancel_found_carried:
  assumes "cancel_found now e = Some (e', out)"
  shows "carried e e'"
proof -
  from assms have "\<not> terminal (status (job e))"
    by (auto simp add: cancel_found_terminal)
  from cancel_found_active [OF this, of now] assms
  have "e' = cancelled_entry now e"
    by simp
  then show ?thesis
    by (simp add: cancelled_entry_def carried_def kept_def justified_def split: option.splits)
qed

lemma apply_event_carried: "carried e (fst (apply_event h ev e))"
proof (cases ev)
  case (Resume now r)
  then show ?thesis by (simp add: apply_event_def resume_carried)
next
  case (CancelJob now)
  then show ?thesis
    by (cases "cancel_found now e")
       (auto simp add: apply_event_def carried_refl cancel_found_carried)
next
  case TaskCancel
  then show ?thesis by (simp add: apply_event_def task_cancel_carried)
qed

fun is_reserve_call :: "effect \<Rightarrow> bool" where
  "is_reserve_call (Reserve idx) = True"
| "is_reserve_call (ReserveStandby idx) = True"
| "is_reserve_call x = False"

definition quiet :: "effect list \<Rightarrow> bool" where
  "quiet out = (\<not> list_ex is_reserve_call out)"

lemma quiet_Nil: "quiet []"
  by (simp add: quiet_def)

lemma quiet_helpers:
  "quiet (snd (finish e))"
  "quiet (snd (on_exception now msg e))"
  "quiet (snd (sleep e))"
  "quiet (snd (on_rail_service_error now code msg e))"
  "quiet (snd (loop_top e))"
  "quiet (snd (after_search now trains e))"
  "quiet (snd (reserve_failed trains rest idx sb code msg e))"
  "quiet (snd (reserve_succeeded now res sb e))"
  "quiet (snd (notify_success res sb e))"
  "quiet (snd (notify_failed msg e))"
  by (simp_all add: quiet_def finish_def on_exception_def sleep_def on_rail_service_error_def
      loop_top_def after_search_def reserve_failed_def reserve_succeeded_def notify_success_def
      notify_failed_def loop_broadcast_def Let_def split: option.splits)

lemma quiet_try_trains: "quiet (snd (try_trains now trains idxs e))"
  by (simp add: try_trains_def quiet_helpers split: scan.splits)
     (simp add: quiet_def loop_broadcast_def)

lemma quiet_after_reserve_failed: "quiet (snd (after_reserve_failed now trains rest code msg e))"
  by (simp add: after_reserve_failed_def quiet_helpers quiet_try_trains)

lemma quiet_relogin_call: "relogin_call h e = Some call \<Longrightarrow> quiet [call]"
  by (auto simp add: relogin_call_def quiet_def split: sum.splits)

lemma quiet_on_search: "quiet (snd (on_search h now retry r e))"
  by (simp add: on_search_def quiet_helpers quiet_Nil quiet_relogin_call
      split: response.splits exn.splits option.splits)

lemma quiet_on_search_relogin: "quiet (snd (on_search_relogin now r e))"
  by (simp add: on_search_relogin_def quiet_helpers quiet_Nil split: response.splits)
     (simp add: quiet_def)

lemma quiet_on_reserve: "quiet (snd (on_reserve h now retry trains rest idx sb r e))"
  by (simp add: on_reserve_def quiet_helpers quiet_Nil quiet_relogin_call
      split: response.splits exn.splits option.splits)

lemma quiet_on_notified: "quiet (snd (on_notified r e))"
  by (simp add: on_notified_def quiet_helpers quiet_Nil split: response.splits)

lemma quiet_not_member: "quiet out \<Longrightarrow> Reserve i \<notin> set out \<and> ReserveStandby i \<notin> set out"
  by (auto simp add: quiet_def list_ex_iff)

definition from_attempt :: "pc \<Rightarrow> effect list \<Rightarrow> bool" where
  "from_attempt p out =
     (quiet out
      \<or> (case attempt_of p of
            None \<Rightarrow> False
          | Some (trains, idx, sb) \<Rightarrow> out = [reserve_call idx sb]))"

lemma quiet_from_attempt: "quiet out \<Longrightarrow> from_attempt p out"
  by (simp add: from_attempt_def)

lemma on_reserve_relogin_from_attempt:
  "from_attempt (AwaitReserveRelogin trains rest idx sb)
     (snd (on_reserve_relogin trains rest idx sb r e))"
  by (simp add: on_reserve_relogin_def from_attempt_def quiet_helpers quiet_Nil
      split: response.splits)

lemma continue_from_attempt: "from_attempt (task_pc e) (snd (continue h now r e))"
proof (cases "task_pc e")
  case NotStarted
  then show ?thesis
    by (simp add: continue_def Let_def from_attempt_def quiet_def loop_broadcast_def)
next
  case (AwaitReserveAttempt trains rest idx sb)
  then show ?thesis
    by (simp add: continue_def from_attempt_def quiet_Nil)
next
  case (AwaitReserveRelogin trains rest idx sb)
  with on_reserve_relogin_from_attempt [of trains rest idx sb r e] show ?thesis
    by (simp add: continue_def)
next
  case (AwaitReserveSuccess res sb)
  then show ?thesis
    by (simp add: continue_def from_attempt_def quiet_def loop_broadcast_def)
qed (simp_all add: continue_def quiet_from_attempt quiet_Nil quiet_helpers quiet_on_search
       quiet_on_search_relogin quiet_try_trains quiet_on_reserve quiet_after_reserve_failed
       quiet_on_notified)

lemma apply_event_from_attempt: "from_attempt (task_pc e) (snd (apply_event h ev e))"
proof (cases ev)
  case (Resume now r)
  then show ?thesis
    by (simp add: apply_event_def resume_def continue_from_attempt quiet_from_attempt quiet_Nil
        throw_cancelled_def finish_def Let_def)
next
  case (CancelJob now)
  then show ?thesis
    by (cases "terminal (status (job e))")
       (simp_all add: apply_event_def cancel_found_terminal cancel_found_active
          quiet_from_attempt quiet_def)
next
  case TaskCancel
  then show ?thesis
    by (simp add: apply_event_def quiet_from_attempt quiet_Nil)
qed

lemma exec_Nil: "exec h [] e = e"
  by (simp add: exec_def)

lemma exec_Cons: "exec h (ev # evs) e = exec h evs (fst (apply_event h ev e))"
proof -
  obtain rest where "run h evs (fst (apply_event h ev e)) = fst (apply_event h ev e) # rest"
    using run_Cons by blast
  then show ?thesis
    by (simp add: exec_def)
qed

lemma exec_justified: "justified e \<Longrightarrow> justified (exec h evs e) \<and> kept e (exec h evs e)"
proof (induction evs arbitrary: e)
  case Nil
  then show ?case by (simp add: exec_Nil kept_def)
next
  case (Cons ev evs)
  let ?e' = "fst (apply_event h ev e)"
  from apply_event_carried [of e h ev] Cons.prems
  have j: "justified ?e'" and k: "kept e ?e'"
    by (simp_all add: carried_def)
  from Cons.IH [OF j] k show ?case
    by (simp add: exec_Cons kept_def)
qed

lemma create_job_justified: "justified (create_job jid now s notif r)"
  by (simp add: create_job_def justified_def)

lemma create_job_request:
  "seat_type (job (create_job jid now s notif r)) = req_seat_type r
   \<and> use_standby (job (create_job jid now s notif r)) = req_use_standby r"
  by (simp add: create_job_def)

lemma reachable_attempt:
  assumes "e = exec h evs (create_job jid t0 s notif r)"
    and "attempt_of (task_pc e) = Some (trains, idx, sb)"
  shows "attempt_ok (req_seat_type r) (req_use_standby r) trains idx sb"
proof -
  from exec_justified [OF create_job_justified, of h evs jid t0 s notif r] assms(1)
  have "justified e" and "kept (create_job jid t0 s notif r) e"
    by simp_all
  with assms(2) show ?thesis
    by (simp add: justified_def kept_def create_job_request)
qed

lemma reserve_call_cases:
  "(ReserveStandby i \<in> set [reserve_call idx sb]) = (i = idx \<and> sb)"
  "(Reserve i \<in> set [reserve_call idx sb]) = (i = idx \<and> \<not> sb)"
  by (auto simp add: reserve_call_def)

lemma issued_call:
  assumes "x \<in> set (snd (apply_event h ev e))" and "is_reserve_call x"
  shows "\<exists>trains idx sb. attempt_of (task_pc e) = Some (trains, idx, sb) \<and> x = reserve_call idx sb"
proof -
  from assms have "\<not> quiet (snd (apply_event h ev e))"
    by (auto simp add: quiet_def list_ex_iff)
  with apply_event_from_attempt [of e h ev] assms(1) show ?thesis
    by (auto simp add: from_attempt_def split: option.splits)
qed

section \<open>Properties of the booking loop\<close>

text \<open>
  C2. In every state a job can reach, a standby reservation is called for an index only
  when the train at that index is not reservable under the job's seat-type policy, the
  job has \<open>use_standby\<close> and the train offers standby; a direct reservation is called
  only when the train is reservable under the policy. With \<open>use_standby\<close> false and no
  reservable seat, the scan of the selected indices never picks that index and no
  attempt on it is in progress, so that neither call is made for it.
\<close>

theorem standby_gating:
  assumes "e = exec h evs (create_job jid t0 s notif r)"
  shows "(ReserveStandby idx \<in> set (snd (apply_event h ev e)) \<longrightarrow>
            (\<exists>trains tr. attempt_of (task_pc e) = Some (trains, idx, True)
               \<and> py_index trains idx = Some tr
               \<and> \<not> can_reserve (req_seat_type r) tr \<and> req_use_standby r
               \<and> standby_available tr))
         \<and> (Reserve idx \<in> set (snd (apply_event h ev e)) \<longrightarrow>
            (\<exists>trains tr. attempt_of (task_pc e) = Some (trains, idx, False)
               \<and> py_index trains idx = Some tr \<and> can_reserve (req_seat_type r) tr))
         \<and> (\<not> req_use_standby r \<and> py_index trains idx = Some tr
              \<and> \<not> can_reserve (req_seat_type r) tr \<longrightarrow>
            attempt_of (task_pc e) \<noteq> Some (trains, idx, True)
            \<and> attempt_of (task_pc e) \<noteq> Some (trains, idx, False)
            \<and> (\<forall>tr' sb rest. next_attempt (job e) trains idxs \<noteq> Attempt idx tr' sb rest))"
proof (intro conjI impI)
  assume a: "ReserveStandby idx \<in> set (snd (apply_event h ev e))"
  from issued_call [OF a] obtain trains i sb
    where at: "attempt_of (task_pc e) = Some (trains, i, sb)"
      and c: "ReserveStandby idx = reserve_call i sb"
    by auto
  from c have "i = idx" and "sb"
    by (auto simp add: reserve_call_def split: if_splits)
  with at reachable_attempt [OF assms, of trains idx True]
  show "\<exists>trains tr. attempt_of (task_pc e) = Some (trains, idx, True)
               \<and> py_index trains idx = Some tr
               \<and> \<not> can_reserve (req_seat_type r) tr \<and> req_use_standby r
               \<and> standby_available tr"
    by (auto simp add: attempt_ok_def split: option.splits)
next
  assume a: "Reserve idx \<in> set (snd (apply_event h ev e))"
  from issued_call [OF a] obtain trains i sb
    where at: "attempt_of (task_pc e) = Some (trains, i, sb)"
      and c: "Reserve idx = reserve_call i sb"
    by auto
  from c have "i = idx" and "\<not> sb"
    by (auto simp add: reserve_call_def split: if_splits)
  with at reachable_attempt [OF assms, of trains idx False]
  show "\<exists>trains tr. attempt_of (task_pc e) = Some (trains, idx, False)
               \<and> py_index trains idx = Some tr \<and> can_reserve (req_seat_type r) tr"
    by (auto simp add: attempt_ok_def split: option.splits)
next
  assume a: "\<not> req_use_standby r \<and> py_index trains idx = Some tr
              \<and> \<not> can_reserve (req_seat_type r) tr"
  with reachable_attempt [OF assms, of trains idx True]
  show "attempt_of (task_pc e) \<noteq> Some (trains, idx, True)"
    by (auto simp add: attempt_ok_def)
next
  assume a: "\<not> req_use_standby r \<and> py_index trains idx = Some tr
              \<and> \<not> can_reserve (req_seat_type r) tr"
  with reachable_attempt [OF assms, of trains idx False]
  show "attempt_of (task_pc e) \<noteq> Some (trains, idx, False)"
    by (auto simp add: attempt_ok_def)
next
  assume a: "\<not> req_use_standby r \<and> py_index trains idx = Some tr
              \<and> \<not> can_reserve (req_seat_type r) tr"
  from exec_justified [OF create_job_justified, of h evs jid t0 s notif r] assms
  have k: "seat_type (job e) = req_seat_type r" "use_standby (job e) = req_use_standby r"
    by (simp_all add: kept_def create_job_request)
  show "\<forall>tr' sb rest. next_attempt (job e) trains idxs \<noteq> Attempt idx tr' sb rest"
  proof (intro allI notI)
    fix tr' sb rest
    assume "next_attempt (job e) trains idxs = Attempt idx tr' sb rest"
    from next_attempt_ok [OF this] a k show False
      by (auto simp add: attempt_ok_def split: if_splits)
  qed
qed

text \<open>
  C3, amended. For every job taken through any interleaving of resumptions of its task,
  calls of \<open>cancel_job\<close> and cancellations of its task from outside (\<open>task.cancel()\<close> at
  the teardown of its session), provided that no cancellation from outside reaches the
  task while it is still inside the \<open>try\<close> of the loop after the job has ended \<open>SUCCESS\<close>
  or \<open>FAILED\<close>: the sequence of status values is either \<open>PENDING, CANCELLED\<close> (the job was
  cancelled before its task first ran) or a prefix of \<open>PENDING, RUNNING, T\<close> with \<open>T\<close> one
  of \<open>SUCCESS\<close>, \<open>FAILED\<close>, \<open>CANCELLED\<close>; once the status is terminal no later step changes
  any field of the job. A task cancelled from outside while the job is \<open>RUNNING\<close> ends
  the job \<open>CANCELLED\<close> through the handler of lines 530-534.
\<close>

theorem status_sequence_shape:
  assumes "admissible h evs (create_job jid t0 s notif r)"
  shows "(status_sequence h evs (create_job jid t0 s notif r) = [PENDING, CANCELLED]
          \<or> (\<exists>T. terminal T
                \<and> prefix (status_sequence h evs (create_job jid t0 s notif r))
                    [PENDING, RUNNING, T]))
         \<and> (\<forall>i. i < length evs
                \<and> terminal (status (job (run h evs (create_job jid t0 s notif r) ! i)))
              \<longrightarrow> job (run h evs (create_job jid t0 s notif r) ! Suc i)
                    = job (run h evs (create_job jid t0 s notif r) ! i))"
proof (intro conjI allI impI)
  have "status (job (create_job jid t0 s notif r)) = PENDING"
    by (simp add: create_job_def)
  with status_sequence_allowed [OF create_job_consistent assms]
  have "status_sequence h evs (create_job jid t0 s notif r) \<in> set (allowed PENDING)"
    by simp
  then show "status_sequence h evs (create_job jid t0 s notif r) = [PENDING, CANCELLED]
          \<or> (\<exists>T. terminal T
                \<and> prefix (status_sequence h evs (create_job jid t0 s notif r))
                    [PENDING, RUNNING, T])"
    by (rule allowed_PENDING_shape)
next
  fix i
  assume "i < length evs
          \<and> terminal (status (job (run h evs (create_job jid t0 s notif r) ! i)))"
  with terminal_frozen [OF create_job_consistent assms, of i]
  show "job (run h evs (create_job jid t0 s notif r) ! Suc i)
          = job (run h evs (create_job jid t0 s notif r) ! i)"
    by simp
qed

section \<open>Concrete runs\<close>

definition one_adult :: passenger_count where
  "one_adult =
     \<lparr>adult = 1, child = 0, senior = 0, disability_1_3 = 0, disability_4_6 = 0, toddler = 0\<rparr>"

definition general_train :: train where
  "general_train =
     \<lparr>train_name = ''SRT'', train_number = ''301'', dep_time = ''080000'',
      general_seat_available = True, special_seat_available = False,
      standby_available = False\<rparr>"

definition special_train :: train where
  "special_train =
     \<lparr>train_name = ''SRT'', train_number = ''303'', dep_time = ''090000'',
      general_seat_available = False, special_seat_available = True,
      standby_available = True\<rparr>"

definition example_job :: "seat_type \<Rightarrow> bool \<Rightarrow> job_entry" where
  "example_job st sb =
     create_job ''j-1'' 100 example_session False
       ((request_with one_adult)\<lparr>req_seat_type := st, req_use_standby := sb\<rparr>)"

definition searched :: "train \<Rightarrow> event list" where
  "searched tr =
     [Resume 101 Completed, Resume 102 Completed, Resume 103 (Trains [tr]),
      Resume 104 Completed]"

lemmas engine_eval =
  exec_Nil exec_Cons apply_event_def resume_def task_done_def task_cancel_def continue_def
  throw_cancelled_def in_try_def cancel_found_def
  loop_top_def loop_broadcast_def finish_def sleep_def on_exception_def
  on_rail_service_error_def on_search_def on_search_relogin_def after_search_def
  available_count_def try_trains_def reserve_call_def relogin_call_def relogin_done_def
  reserve_failed_def after_reserve_failed_def reserve_succeeded_def on_reserve_def
  on_reserve_relogin_def notify_success_def notify_failed_def on_notified_def
  py_index_def can_reserve_def can_standby_def is_standby_def Let_def

lemmas example_defs =
  example_job_def searched_def create_job_def request_with_def one_adult_def
  example_session_def general_train_def special_train_def

lemma example_standby_state:
  "task_pc (exec reversing_handler (searched special_train) (example_job GENERAL_ONLY True))
     = AwaitReserveAttempt [special_train] [] 0 True"
  by (simp add: engine_eval example_defs)

theorem standby_gating_witness:
  "ReserveStandby 0 \<in> set (snd (apply_event reversing_handler (Resume 105 Completed)
       (exec reversing_handler (searched special_train) (example_job GENERAL_ONLY True))))
   \<and> \<not> can_reserve GENERAL_ONLY special_train \<and> standby_available special_train
   \<and> Reserve 0 \<in> set (snd (apply_event reversing_handler (Resume 105 Completed)
       (exec reversing_handler (searched special_train) (example_job GENERAL_FIRST False))))
   \<and> can_reserve GENERAL_FIRST special_train
   \<and> py_index [special_train] 0 = Some special_train
   \<and> next_attempt
         (job (exec reversing_handler (searched special_train) (example_job GENERAL_ONLY False)))
         [special_train] [0] = Exhausted
   \<and> task_pc (exec reversing_handler (searched special_train) (example_job GENERAL_ONLY False))
       = AwaitSleep"
  using
    standby_gating [OF refl, where h = reversing_handler and evs = "searched special_train"
      and jid = "''j-1''" and ?t0.0 = 100 and s = example_session and notif = False
      and r = "(request_with one_adult)\<lparr>req_seat_type := GENERAL_ONLY, req_use_standby := True\<rparr>"
      and idx = 0 and ev = "Resume 105 Completed" and trains = "[special_train]"
      and tr = special_train and idxs = "[0]"]
    standby_gating [OF refl, where h = reversing_handler and evs = "searched special_train"
      and jid = "''j-1''" and ?t0.0 = 100 and s = example_session and notif = False
      and r = "(request_with one_adult)\<lparr>req_seat_type := GENERAL_FIRST, req_use_standby := False\<rparr>"
      and idx = 0 and ev = "Resume 105 Completed" and trains = "[special_train]"
      and tr = special_train and idxs = "[0]"]
    standby_gating [OF refl, where h = reversing_handler and evs = "searched special_train"
      and jid = "''j-1''" and ?t0.0 = 100 and s = example_session and notif = False
      and r = "(request_with one_adult)\<lparr>req_seat_type := GENERAL_ONLY, req_use_standby := False\<rparr>"
      and idx = 0 and ev = "Resume 105 Completed" and trains = "[special_train]"
      and tr = special_train and idxs = "[0]"]
  by (simp add: engine_eval example_defs)

definition booked :: "event list" where
  "booked =
     searched general_train
     @ [Resume 105 Completed, Resume 106 (Reserved (Reservation ''R-1'' False))]"

lemmas sequence_eval = status_sequence_Nil status_sequence_Cons

definition cancelled_from_outside :: "event list" where
  "cancelled_from_outside =
     searched general_train @ [TaskCancel, Resume 105 Completed, TaskCancel, CancelJob 106]"

lemmas admissible_eval = late_cancel_def terminal_def

theorem status_sequence_shape_witness:
  "admissible reversing_handler cancelled_from_outside (example_job GENERAL_FIRST False)
   \<and> status_sequence reversing_handler cancelled_from_outside (example_job GENERAL_FIRST False)
       = [PENDING, RUNNING, CANCELLED]
   \<and> terminal CANCELLED
   \<and> prefix [PENDING, RUNNING, CANCELLED] [PENDING, RUNNING, CANCELLED]
   \<and> task_pc (run reversing_handler cancelled_from_outside (example_job GENERAL_FIRST False) ! 4)
       = AwaitReserveAttempt [general_train] [] 0 False
   \<and> status (job (run reversing_handler cancelled_from_outside
        (example_job GENERAL_FIRST False) ! 5)) = RUNNING
   \<and> \<not> cancelled (job (run reversing_handler cancelled_from_outside
        (example_job GENERAL_FIRST False) ! 6))
   \<and> completed_at (job (run reversing_handler cancelled_from_outside
        (example_job GENERAL_FIRST False) ! 6)) = Some 105
   \<and> terminal (status (job (run reversing_handler cancelled_from_outside
        (example_job GENERAL_FIRST False) ! 6)))
   \<and> job (run reversing_handler cancelled_from_outside (example_job GENERAL_FIRST False) ! 7)
       = job (run reversing_handler cancelled_from_outside (example_job GENERAL_FIRST False) ! 6)
   \<and> job (run reversing_handler cancelled_from_outside (example_job GENERAL_FIRST False) ! 8)
       = job (run reversing_handler cancelled_from_outside (example_job GENERAL_FIRST False) ! 7)
   \<and> admissible reversing_handler (booked @ [CancelJob 107, Resume 108 Completed])
        (example_job GENERAL_FIRST False)
   \<and> status_sequence reversing_handler (booked @ [CancelJob 107, Resume 108 Completed])
        (example_job GENERAL_FIRST False) = [PENDING, RUNNING, SUCCESS]
   \<and> terminal SUCCESS
   \<and> prefix [PENDING, RUNNING, SUCCESS] [PENDING, RUNNING, SUCCESS]
   \<and> terminal (status (job (run reversing_handler (booked @ [CancelJob 107, Resume 108 Completed])
        (example_job GENERAL_FIRST False) ! 6)))
   \<and> job (run reversing_handler (booked @ [CancelJob 107, Resume 108 Completed])
        (example_job GENERAL_FIRST False) ! 7)
       = job (run reversing_handler (booked @ [CancelJob 107, Resume 108 Completed])
        (example_job GENERAL_FIRST False) ! 6)"
  using
    status_sequence_shape [where evs = cancelled_from_outside
      and h = reversing_handler and jid = "''j-1''" and ?t0.0 = 100 and s = example_session
      and notif = False
      and r = "(request_with one_adult)\<lparr>req_seat_type := GENERAL_FIRST, req_use_standby := False\<rparr>"]
    status_sequence_shape [where evs = "booked @ [CancelJob 107, Resume 108 Completed]"
      and h = reversing_handler and jid = "''j-1''" and ?t0.0 = 100 and s = example_session
      and notif = False
      and r = "(request_with one_adult)\<lparr>req_seat_type := GENERAL_FIRST, req_use_standby := False\<rparr>"]
  by (simp add: cancelled_from_outside_def booked_def sequence_eval admissible_eval engine_eval
      example_defs)

text \<open>
  The claim C3 as first stated allows only prefixes of \<open>PENDING, RUNNING, T\<close>. A job
  cancelled before its task first runs goes from \<open>PENDING\<close> straight to \<open>CANCELLED\<close>:
  \<open>cancel_job\<close> accepts a pending job, and the cancelled task ends without running.
\<close>

theorem cancelled_while_pending:
  "status_sequence reversing_handler [CancelJob 101, Resume 102 Completed]
       (example_job GENERAL_FIRST False) = [PENDING, CANCELLED]
   \<and> \<not> prefix [PENDING, CANCELLED] [PENDING, RUNNING, SUCCESS]
   \<and> \<not> prefix [PENDING, CANCELLED] [PENDING, RUNNING, FAILED]
   \<and> \<not> prefix [PENDING, CANCELLED] [PENDING, RUNNING, CANCELLED]"
  by (simp add: sequence_eval engine_eval example_defs)

text \<open>
  The run left out above. A task cancelled from outside while it broadcasts its success
  is still inside the \<open>try\<close>: the handler of \<open>CancelledError\<close> (lines 530-534) tests the
  cancellation flag of the job, not its status, and overwrites \<open>SUCCESS\<close> with
  \<open>CANCELLED\<close>, where \<open>cancel_job\<close> refuses a job whose status is terminal.
\<close>

lemma task_cancelled_after_success:
  "status_sequence reversing_handler (booked @ [TaskCancel, Resume 107 Completed])
       (example_job GENERAL_FIRST False) = [PENDING, RUNNING, SUCCESS, CANCELLED]
   \<and> late_cancel TaskCancel (exec reversing_handler booked (example_job GENERAL_FIRST False))
   \<and> \<not> admissible reversing_handler (booked @ [TaskCancel, Resume 107 Completed])
         (example_job GENERAL_FIRST False)"
  by (simp add: booked_def sequence_eval admissible_eval engine_eval example_defs)

theorem cancel_job_contract_witness:
  "cancel_job ''j-9'' 200 [''j-1'' \<mapsto> example_job GENERAL_FIRST False]
     = (False, [''j-1'' \<mapsto> example_job GENERAL_FIRST False], [])
   \<and> terminal (status (job (exec reversing_handler booked (example_job GENERAL_FIRST False))))
   \<and> cancel_job ''j-1'' 200
        [''j-1'' \<mapsto> exec reversing_handler booked (example_job GENERAL_FIRST False)]
     = (False, [''j-1'' \<mapsto> exec reversing_handler booked (example_job GENERAL_FIRST False)], [])
   \<and> \<not> terminal (status (job (example_job GENERAL_FIRST False)))
   \<and> fst (cancel_job ''j-1'' 200 [''j-1'' \<mapsto> example_job GENERAL_FIRST False])
   \<and> snd (snd (cancel_job ''j-1'' 200 [''j-1'' \<mapsto> example_job GENERAL_FIRST False]))
       = [Broadcast ''s-1'' JOB_CANCELLED ''j-1'' Cancelled_payload]"
  using
    cancel_job_contract [where js = "[''j-1'' \<mapsto> example_job GENERAL_FIRST False]"
      and jid = "''j-9''" and now = 200 and e = "example_job GENERAL_FIRST False"
      and h = reversing_handler and now' = 201 and r = Completed]
    cancel_job_contract
      [where js = "[''j-1'' \<mapsto> exec reversing_handler booked (example_job GENERAL_FIRST False)]"
      and jid = "''j-1''" and now = 200
      and e = "exec reversing_handler booked (example_job GENERAL_FIRST False)"
      and h = reversing_handler and now' = 201 and r = Completed]
    cancel_job_contract [where js = "[''j-1'' \<mapsto> example_job GENERAL_FIRST False]"
      and jid = "''j-1''" and now = 200 and e = "example_job GENERAL_FIRST False"
      and h = reversing_handler and now' = 201 and r = Completed]
  by (simp add: cancel_job_def booked_def engine_eval example_defs terminal_def)

section \<open>The re-authentication handlers of the loop\<close>

lemma session_expired_not_retryable:
  "''SESSION_EXPIRED'' \<notin> {''RESERVE_SOLD_OUT'', ''TRAIN_SEARCH_NO_RESULTS''}
   \<and> ''SESSION_EXPIRED'' \<notin> {''RESERVE_SOLD_OUT'', ''STANDBY_NOT_AVAILABLE''}"
  by simp

lemma search_reauthentication:
  assumes "\<not> must_cancel e" and "task_pc e = AwaitSearch"
    and "decrypt h (encrypted_credentials (session e)) = Inr (u, p)"
  shows "trace h [Resume t1 (Raised (LoginRequired m)), Resume t2 (LoggedIn c ui)] e
           = [Login (rail_type (session e)) u p, SearchTrains]"
    and "session (exec h [Resume t1 (Raised (LoginRequired m)), Resume t2 (LoggedIn c ui)] e)
           = (session e)\<lparr>rail_client := Some c, user_info := ui\<rparr>"
    and "job (exec h [Resume t1 (Raised (LoginRequired m)), Resume t2 (LoggedIn c ui)] e) = job e"
    and "trace h [Resume t1 (Raised (LoginRequired m)), Resume t2 (LoggedIn c ui),
                  Resume t3 (Raised (LoginRequired m'))] e
           = [Login (rail_type (session e)) u p, SearchTrains,
              Broadcast (session_id (session e)) JOB_COMPLETED (job_id (job e))
                (CompletedFailure (attempt_count (job e)) m')]"
    and "status (job (exec h [Resume t1 (Raised (LoginRequired m)), Resume t2 (LoggedIn c ui),
                  Resume t3 (Raised (LoginRequired m'))] e)) = FAILED"
  using assms by (simp_all add: engine_eval)

lemma search_relogin_failure:
  assumes "\<not> must_cancel e" and "task_pc e = AwaitSearch"
    and "decrypt h (encrypted_credentials (session e)) = Inr (u, p)"
  shows "trace h [Resume t1 (Raised (LoginRequired m)), Resume t2 (Raised x)] e
           = [Login (rail_type (session e)) u p,
              Broadcast (session_id (session e)) JOB_COMPLETED (job_id (job e))
                (CompletedFailure (attempt_count (job e)) relogin_failed_message)]"
    and "status (job (exec h [Resume t1 (Raised (LoginRequired m)), Resume t2 (Raised x)] e))
           = FAILED"
    and "error (job (exec h [Resume t1 (Raised (LoginRequired m)), Resume t2 (Raised x)] e))
           = Some relogin_failed_message"
    and "resume h t2 (Raised x) (exec h [Resume t1 (Raised (LoginRequired m))] e)
           = on_rail_service_error t2 ''SESSION_EXPIRED'' relogin_failed_message
               (exec h [Resume t1 (Raised (LoginRequired m))] e)"
  using assms by (simp_all add: engine_eval)

lemma search_decrypt_failure:
  assumes "\<not> must_cancel e" and "task_pc e = AwaitSearch"
    and "decrypt h (encrypted_credentials (session e)) = Inl err"
  shows "trace h [Resume t1 (Raised (LoginRequired m))] e
           = [Broadcast (session_id (session e)) JOB_COMPLETED (job_id (job e))
                (CompletedFailure (attempt_count (job e)) relogin_failed_message)]"
    and "status (job (exec h [Resume t1 (Raised (LoginRequired m))] e)) = FAILED"
    and "error (job (exec h [Resume t1 (Raised (LoginRequired m))] e))
           = Some relogin_failed_message"
    and "resume h t1 (Raised (LoginRequired m)) e
           = on_rail_service_error t1 ''SESSION_EXPIRED'' relogin_failed_message e"
  using assms by (simp_all add: engine_eval)

lemma reserve_reauthentication:
  assumes "\<not> must_cancel e" and "task_pc e = AwaitReserve trains rest idx sb"
    and "decrypt h (encrypted_credentials (session e)) = Inr (u, p)"
  shows "trace h [Resume t1 (Raised (LoginRequired m)), Resume t2 (LoggedIn c ui)] e
           = [Login (rail_type (session e)) u p, reserve_call idx sb]"
    and "session (exec h [Resume t1 (Raised (LoginRequired m)), Resume t2 (LoggedIn c ui)] e)
           = (session e)\<lparr>rail_client := Some c, user_info := ui\<rparr>"
    and "job (exec h [Resume t1 (Raised (LoginRequired m)), Resume t2 (LoggedIn c ui)] e) = job e"
    and "trace h [Resume t1 (Raised (LoginRequired m)), Resume t2 (LoggedIn c ui),
                  Resume t3 (Raised (LoginRequired m'))] e
           = [Login (rail_type (session e)) u p, reserve_call idx sb,
              Broadcast (session_id (session e)) JOB_COMPLETED (job_id (job e))
                (CompletedFailure (attempt_count (job e)) m')]"
    and "status (job (exec h [Resume t1 (Raised (LoginRequired m)), Resume t2 (LoggedIn c ui),
                  Resume t3 (Raised (LoginRequired m'))] e)) = FAILED"
  using assms by (simp_all add: engine_eval)

lemma reserve_relogin_failure:
  assumes "\<not> must_cancel e" and "task_pc e = AwaitReserve trains rest idx sb"
    and "decrypt h (encrypted_credentials (session e)) = Inr (u, p)"
  shows "trace h [Resume t1 (Raised (LoginRequired m)), Resume t2 (Raised x),
                  Resume t3 Completed] e
           = [Login (rail_type (session e)) u p,
              Broadcast (session_id (session e)) RESERVE_FAILED (job_id (job e))
                (ReserveFailure idx ''SESSION_EXPIRED'' relogin_failed_message False sb),
              Broadcast (session_id (session e)) JOB_COMPLETED (job_id (job e))
                (CompletedFailure (attempt_count (job e)) relogin_failed_message)]"
    and "status (job (exec h [Resume t1 (Raised (LoginRequired m)), Resume t2 (Raised x),
                  Resume t3 Completed] e)) = FAILED"
    and "error (job (exec h [Resume t1 (Raised (LoginRequired m)), Resume t2 (Raised x),
                  Resume t3 Completed] e)) = Some relogin_failed_message"
  using assms by (simp_all add: engine_eval)

lemma reserve_decrypt_failure:
  assumes "\<not> must_cancel e" and "task_pc e = AwaitReserve trains rest idx sb"
    and "decrypt h (encrypted_credentials (session e)) = Inl err"
  shows "trace h [Resume t1 (Raised (LoginRequired m)), Resume t3 Completed] e
           = [Broadcast (session_id (session e)) RESERVE_FAILED (job_id (job e))
                (ReserveFailure idx ''SESSION_EXPIRED'' relogin_failed_message False sb),
              Broadcast (session_id (session e)) JOB_COMPLETED (job_id (job e))
                (CompletedFailure (attempt_count (job e)) relogin_failed_message)]"
    and "status (job (exec h [Resume t1 (Raised (LoginRequired m)), Resume t3 Completed] e))
           = FAILED"
    and "error (job (exec h [Resume t1 (Raised (LoginRequired m)), Resume t3 Completed] e))
           = Some relogin_failed_message"
  using assms by (simp_all add: engine_eval)

text \<open>
  The handlers of lines 265-287 and 399-427, taken alone. If the first search, or the
  first reserve or reserve-standby call of an attempt, were answered with the
  re-authentication condition, the engine would decrypt the stored credentials, call
  login once, replace the client handle of the session and repeat the same call once,
  the job being untouched meanwhile; a second such answer would bring no second login
  and the job would fail; credentials that cannot be decrypted, or a failed login, would
  be handled as a \<open>RailServiceError\<close> with code \<open>SESSION_EXPIRED\<close>, which is in neither
  retryable set, and end the job \<open>FAILED\<close> with that error's message.
\<close>

theorem reauthentication_once:
  assumes "\<not> must_cancel e"
  shows
    "(task_pc e = AwaitSearch \<and> decrypt h (encrypted_credentials (session e)) = Inr (u, p)
      \<longrightarrow>
        trace h [Resume t1 (Raised (LoginRequired m)), Resume t2 (LoggedIn c ui)] e
          = [Login (rail_type (session e)) u p, SearchTrains]
        \<and> session (exec h [Resume t1 (Raised (LoginRequired m)), Resume t2 (LoggedIn c ui)] e)
          = (session e)\<lparr>rail_client := Some c, user_info := ui\<rparr>
        \<and> job (exec h [Resume t1 (Raised (LoginRequired m)), Resume t2 (LoggedIn c ui)] e)
          = job e
        \<and> trace h [Resume t1 (Raised (LoginRequired m)), Resume t2 (LoggedIn c ui),
                    Resume t3 (Raised (LoginRequired m'))] e
          = [Login (rail_type (session e)) u p, SearchTrains,
             Broadcast (session_id (session e)) JOB_COMPLETED (job_id (job e))
               (CompletedFailure (attempt_count (job e)) m')]
        \<and> trace h [Resume t1 (Raised (LoginRequired m)), Resume t2 (Raised x)] e
          = [Login (rail_type (session e)) u p,
             Broadcast (session_id (session e)) JOB_COMPLETED (job_id (job e))
               (CompletedFailure (attempt_count (job e)) relogin_failed_message)]
        \<and> resume h t2 (Raised x) (exec h [Resume t1 (Raised (LoginRequired m))] e)
          = on_rail_service_error t2 ''SESSION_EXPIRED'' relogin_failed_message
              (exec h [Resume t1 (Raised (LoginRequired m))] e)
        \<and> status (job (exec h [Resume t1 (Raised (LoginRequired m)), Resume t2 (Raised x)] e))
          = FAILED
        \<and> error (job (exec h [Resume t1 (Raised (LoginRequired m)), Resume t2 (Raised x)] e))
          = Some relogin_failed_message)
     \<and> (task_pc e = AwaitSearch \<and> decrypt h (encrypted_credentials (session e)) = Inl err
      \<longrightarrow>
        resume h t1 (Raised (LoginRequired m)) e
          = on_rail_service_error t1 ''SESSION_EXPIRED'' relogin_failed_message e
        \<and> trace h [Resume t1 (Raised (LoginRequired m))] e
          = [Broadcast (session_id (session e)) JOB_COMPLETED (job_id (job e))
               (CompletedFailure (attempt_count (job e)) relogin_failed_message)]
        \<and> status (job (exec h [Resume t1 (Raised (LoginRequired m))] e)) = FAILED)
     \<and> (task_pc e = AwaitReserve trains rest idx sb
         \<and> decrypt h (encrypted_credentials (session e)) = Inr (u, p)
      \<longrightarrow>
        trace h [Resume t1 (Raised (LoginRequired m)), Resume t2 (LoggedIn c ui)] e
          = [Login (rail_type (session e)) u p, reserve_call idx sb]
        \<and> session (exec h [Resume t1 (Raised (LoginRequired m)), Resume t2 (LoggedIn c ui)] e)
          = (session e)\<lparr>rail_client := Some c, user_info := ui\<rparr>
        \<and> job (exec h [Resume t1 (Raised (LoginRequired m)), Resume t2 (LoggedIn c ui)] e)
          = job e
        \<and> trace h [Resume t1 (Raised (LoginRequired m)), Resume t2 (LoggedIn c ui),
                    Resume t3 (Raised (LoginRequired m'))] e
          = [Login (rail_type (session e)) u p, reserve_call idx sb,
             Broadcast (session_id (session e)) JOB_COMPLETED (job_id (job e))
               (CompletedFailure (attempt_count (job e)) m')]
        \<and> trace h [Resume t1 (Raised (LoginRequired m)), Resume t2 (Raised x),
                    Resume t3 Completed] e
          = [Login (rail_type (session e)) u p,
             Broadcast (session_id (session e)) RESERVE_FAILED (job_id (job e))
               (ReserveFailure idx ''SESSION_EXPIRED'' relogin_failed_message False sb),
             Broadcast (session_id (session e)) JOB_COMPLETED (job_id (job e))
               (CompletedFailure (attempt_count (job e)) relogin_failed_message)]
        \<and> status (job (exec h [Resume t1 (Raised (LoginRequired m)), Resume t2 (Raised x),
                    Resume t3 Completed] e)) = FAILED
        \<and> error (job (exec h [Resume t1 (Raised (LoginRequired m)), Resume t2 (Raised x),
                    Resume t3 Completed] e)) = Some relogin_failed_message)
     \<and> (task_pc e = AwaitReserve trains rest idx sb
         \<and> decrypt h (encrypted_credentials (session e)) = Inl err
      \<longrightarrow>
        trace h [Resume t1 (Raised (LoginRequired m)), Resume t3 Completed] e
          = [Broadcast (session_id (session e)) RESERVE_FAILED (job_id (job e))
               (ReserveFailure idx ''SESSION_EXPIRED'' relogin_failed_message False sb),
             Broadcast (session_id (session e)) JOB_COMPLETED (job_id (job e))
               (CompletedFailure (attempt_count (job e)) relogin_failed_message)]
        \<and> status (job (exec h [Resume t1 (Raised (LoginRequired m)), Resume t3 Completed] e))
          = FAILED)
     \<and> ''SESSION_EXPIRED'' \<notin> {''RESERVE_SOLD_OUT'', ''TRAIN_SEARCH_NO_RESULTS''}
     \<and> ''SESSION_EXPIRED'' \<notin> {''RESERVE_SOLD_OUT'', ''STANDBY_NOT_AVAILABLE''}"
proof -
  note steps = search_reauthentication search_relogin_failure search_decrypt_failure
    reserve_reauthentication reserve_relogin_failure reserve_decrypt_failure
  have codes: "''SESSION_EXPIRED'' \<notin> {''RESERVE_SOLD_OUT'', ''TRAIN_SEARCH_NO_RESULTS''}"
    "''SESSION_EXPIRED'' \<notin> {''RESERVE_SOLD_OUT'', ''STANDBY_NOT_AVAILABLE''}"
    by simp_all
  show ?thesis
    by (intro conjI impI; (elim conjE)?;
        (rule codes | (rule steps, rule assms, assumption, assumption)))
qed

definition waiting_search :: job_entry where
  "waiting_search =
     exec reversing_handler [Resume 101 Completed, Resume 102 Completed]
       (example_job GENERAL_FIRST False)"

definition waiting_reserve :: job_entry where
  "waiting_reserve =
     exec reversing_handler (searched general_train @ [Resume 105 Completed])
       (example_job GENERAL_FIRST False)"

definition with_bad_credentials :: "job_entry \<Rightarrow> job_entry" where
  "with_bad_credentials e = e\<lparr>session := (session e)\<lparr>encrypted_credentials := ascii ''garbage''\<rparr>\<rparr>"

lemmas credential_eval = decrypt_def reversing_handler_def split1_def example_token_def
  codec_eval

lemma waiting_search_state:
  "\<not> must_cancel waiting_search"
  "task_pc waiting_search = AwaitSearch"
  "decrypt reversing_handler (encrypted_credentials (session waiting_search))
     = Inr (ascii ''1234567890'', ascii ''s3cret!'')"
  "rail_type (session waiting_search) = ''SRT''"
  by (simp_all add: waiting_search_def engine_eval example_defs credential_eval)

lemma bad_search_state:
  "\<not> must_cancel (with_bad_credentials waiting_search)"
  "task_pc (with_bad_credentials waiting_search) = AwaitSearch"
  "decrypt reversing_handler
     (encrypted_credentials (session (with_bad_credentials waiting_search))) = Inl ValueError"
  by (simp_all add: with_bad_credentials_def waiting_search_state)
     (simp add: credential_eval)

lemma waiting_reserve_state:
  "\<not> must_cancel waiting_reserve"
  "task_pc waiting_reserve = AwaitReserve [general_train] [] 0 False"
  "decrypt reversing_handler (encrypted_credentials (session waiting_reserve))
     = Inr (ascii ''1234567890'', ascii ''s3cret!'')"
  "rail_type (session waiting_reserve) = ''SRT''"
  by (simp_all add: waiting_reserve_def engine_eval example_defs credential_eval)

lemma bad_reserve_state:
  "\<not> must_cancel (with_bad_credentials waiting_reserve)"
  "task_pc (with_bad_credentials waiting_reserve) = AwaitReserve [general_train] [] 0 False"
  "decrypt reversing_handler
     (encrypted_credentials (session (with_bad_credentials waiting_reserve))) = Inl ValueError"
  by (simp_all add: with_bad_credentials_def waiting_reserve_state)
     (simp add: credential_eval)

theorem reauthentication_once_witness:
  "\<not> must_cancel waiting_search \<and> task_pc waiting_search = AwaitSearch
   \<and> decrypt reversing_handler (encrypted_credentials (session waiting_search))
       = Inr (ascii ''1234567890'', ascii ''s3cret!'')
   \<and> trace reversing_handler
        [Resume 103 (Raised (LoginRequired ''login required'')),
         Resume 104 (LoggedIn \<lparr>client_handle = 2, has_logout = True\<rparr>
           \<lparr>name = Some ''Kim'', membership_number = Some ''1234567890''\<rparr>)] waiting_search
       = [Login ''SRT'' (ascii ''1234567890'') (ascii ''s3cret!''), SearchTrains]
   \<and> status (job (exec reversing_handler
        [Resume 103 (Raised (LoginRequired ''login required'')),
         Resume 104 (Raised (OtherException ''refused''))] waiting_search)) = FAILED
   \<and> \<not> must_cancel (with_bad_credentials waiting_search)
   \<and> decrypt reversing_handler
        (encrypted_credentials (session (with_bad_credentials waiting_search)))
       = Inl ValueError
   \<and> status (job (exec reversing_handler
        [Resume 103 (Raised (LoginRequired ''login required''))]
        (with_bad_credentials waiting_search))) = FAILED
   \<and> \<not> must_cancel waiting_reserve
   \<and> task_pc waiting_reserve = AwaitReserve [general_train] [] 0 False
   \<and> trace reversing_handler
        [Resume 103 (Raised (LoginRequired ''login required'')),
         Resume 104 (LoggedIn \<lparr>client_handle = 2, has_logout = True\<rparr>
           \<lparr>name = Some ''Kim'', membership_number = Some ''1234567890''\<rparr>)] waiting_reserve
       = [Login ''SRT'' (ascii ''1234567890'') (ascii ''s3cret!''), Reserve 0]
   \<and> status (job (exec reversing_handler
        [Resume 103 (Raised (LoginRequired ''login required'')),
         Resume 104 (Raised (OtherException ''refused'')), Resume 105 Completed]
        waiting_reserve)) = FAILED
   \<and> task_pc (with_bad_credentials waiting_reserve) = AwaitReserve [general_train] [] 0 False
   \<and> status (job (exec reversing_handler
        [Resume 103 (Raised (LoginRequired ''login required'')), Resume 105 Completed]
        (with_bad_credentials waiting_reserve))) = FAILED"
  using
    reauthentication_once [OF waiting_search_state(1), where h = reversing_handler and ?t1.0 = 103 and m = "''login required''"
      and ?t2.0 = 104 and c = "\<lparr>client_handle = 2, has_logout = True\<rparr>"
      and ui = "\<lparr>name = Some ''Kim'', membership_number = Some ''1234567890''\<rparr>"
      and ?t3.0 = 105 and m' = "''login required again''" and x = "OtherException ''refused''"
      and trains = "[general_train]" and rest = "[]" and idx = 0 and sb = False
      and u = "ascii ''1234567890''" and p = "ascii ''s3cret!''" and err = ValueError]
    reauthentication_once [OF bad_search_state(1), where h = reversing_handler and ?t1.0 = 103 and m = "''login required''"
      and ?t2.0 = 104 and c = "\<lparr>client_handle = 2, has_logout = True\<rparr>"
      and ui = "\<lparr>name = Some ''Kim'', membership_number = Some ''1234567890''\<rparr>"
      and ?t3.0 = 105 and m' = "''login required again''" and x = "OtherException ''refused''"
      and trains = "[general_train]" and rest = "[]" and idx = 0 and sb = False
      and u = "ascii ''1234567890''" and p = "ascii ''s3cret!''" and err = ValueError]
    reauthentication_once [OF waiting_reserve_state(1), where h = reversing_handler and ?t1.0 = 103 and m = "''login required''"
      and ?t2.0 = 104 and c = "\<lparr>client_handle = 2, has_logout = True\<rparr>"
      and ui = "\<lparr>name = Some ''Kim'', membership_number = Some ''1234567890''\<rparr>"
      and ?t3.0 = 105 and m' = "''login required again''" and x = "OtherException ''refused''"
      and trains = "[general_train]" and rest = "[]" and idx = 0 and sb = False
      and u = "ascii ''1234567890''" and p = "ascii ''s3cret!''" and err = ValueError]
    reauthentication_once [OF bad_reserve_state(1), where h = reversing_handler and ?t1.0 = 103 and m = "''login required''"
      and ?t2.0 = 104 and c = "\<lparr>client_handle = 2, has_logout = True\<rparr>"
      and ui = "\<lparr>name = Some ''Kim'', membership_number = Some ''1234567890''\<rparr>"
      and ?t3.0 = 105 and m' = "''login required again''" and x = "OtherException ''refused''"
      and trains = "[general_train]" and rest = "[]" and idx = 0 and sb = False
      and u = "ascii ''1234567890''" and p = "ascii ''s3cret!''" and err = ValueError]
  by (simp add: waiting_search_state bad_search_state waiting_reserve_state
      bad_reserve_state reserve_call_def del: trace.simps)

section \<open>The re-authentication condition does not reach the loop\<close>

fun is_login :: "effect \<Rightarrow> bool" where
  "is_login (Login rt u p) = True"
| "is_login x = False"

text \<open>The task is resumed with the re-authentication condition as the answer of its call.\<close>

fun condition_seen :: "event \<Rightarrow> bool" where
  "condition_seen (Resume now r) = login_required r"
| "condition_seen ev = False"

definition no_login :: "effect list \<Rightarrow> bool" where
  "no_login out = (\<not> list_ex is_login out)"

lemma no_login_Nil: "no_login []"
  by (simp add: no_login_def)

lemma no_login_append: "no_login (a @ b) = (no_login a \<and> no_login b)"
  by (auto simp add: no_login_def list_ex_iff)

lemma no_login_helpers:
  "no_login (snd (finish e))"
  "no_login (snd (on_exception now msg e))"
  "no_login (snd (sleep e))"
  "no_login (snd (on_rail_service_error now code msg e))"
  "no_login (snd (loop_top e))"
  "no_login (snd (after_search now trains e))"
  "no_login (snd (reserve_failed trains rest idx sb code msg e))"
  "no_login (snd (reserve_succeeded now res sb e))"
  "no_login (snd (notify_success res sb e))"
  "no_login (snd (notify_failed msg e))"
  by (simp_all add: no_login_def finish_def on_exception_def sleep_def on_rail_service_error_def
      loop_top_def after_search_def reserve_failed_def reserve_succeeded_def notify_success_def
      notify_failed_def loop_broadcast_def Let_def split: option.splits)

lemma no_login_try_trains: "no_login (snd (try_trains now trains idxs e))"
  by (simp add: try_trains_def no_login_helpers split: scan.splits)
     (simp add: no_login_def loop_broadcast_def)

lemma no_login_after_reserve_failed:
  "no_login (snd (after_reserve_failed now trains rest code msg e))"
  by (simp add: after_reserve_failed_def no_login_helpers no_login_try_trains)

lemma no_login_on_search:
  "\<not> login_required r \<Longrightarrow> no_login (snd (on_search h now retry r e))"
  by (auto simp add: on_search_def no_login_helpers no_login_Nil
      split: response.splits exn.splits)

lemma no_login_on_search_relogin: "no_login (snd (on_search_relogin now r e))"
  by (simp add: on_search_relogin_def no_login_helpers no_login_Nil split: response.splits)
     (simp add: no_login_def)

lemma no_login_on_reserve:
  "\<not> login_required r \<Longrightarrow> no_login (snd (on_reserve h now retry trains rest idx sb r e))"
  by (auto simp add: on_reserve_def no_login_helpers no_login_Nil
      split: response.splits exn.splits)

lemma no_login_on_reserve_relogin:
  "no_login (snd (on_reserve_relogin trains rest idx sb r e))"
  by (simp add: on_reserve_relogin_def no_login_helpers no_login_Nil split: response.splits)
     (simp add: no_login_def reserve_call_def)

lemma no_login_on_notified: "no_login (snd (on_notified r e))"
  by (simp add: on_notified_def no_login_helpers no_login_Nil split: response.splits)

lemma no_login_continue:
  assumes "\<not> login_required r"
  shows "no_login (snd (continue h now r e))"
proof (cases "task_pc e")
  case NotStarted
  then show ?thesis
    by (simp add: continue_def Let_def no_login_def loop_broadcast_def)
next
  case (AwaitReserveAttempt trains rest idx sb)
  then show ?thesis
    by (simp add: continue_def no_login_Nil no_login_def reserve_call_def)
next
  case (AwaitReserveSuccess res sb)
  then show ?thesis
    by (simp add: continue_def no_login_def loop_broadcast_def)
qed (simp_all add: continue_def assms no_login_Nil no_login_helpers no_login_on_search
       no_login_on_search_relogin no_login_try_trains no_login_on_reserve
       no_login_on_reserve_relogin no_login_after_reserve_failed no_login_on_notified)

lemma no_login_apply_event:
  assumes "\<not> condition_seen ev"
  shows "no_login (snd (apply_event h ev e))"
proof (cases ev)
  case (Resume now r)
  with assms show ?thesis
    by (simp add: apply_event_def resume_def no_login_continue no_login_Nil
        throw_cancelled_def finish_def Let_def)
next
  case (CancelJob now)
  then show ?thesis
    by (cases "terminal (status (job e))")
       (simp_all add: apply_event_def cancel_found_terminal cancel_found_active no_login_def)
next
  case TaskCancel
  then show ?thesis
    by (simp add: apply_event_def no_login_Nil)
qed

lemma no_login_trace: "\<not> list_ex condition_seen evs \<Longrightarrow> no_login (trace h evs e)"
proof (induction evs arbitrary: e)
  case Nil
  then show ?case by (simp add: no_login_Nil)
next
  case (Cons ev evs)
  then show ?case
    by (simp add: no_login_append no_login_apply_event)
qed

lemma search_trains_raises:
  "search_trains (Raises x) =
     Raised (RailServiceError
       (if contains word_station (str x) then ''TRAIN_SEARCH_INVALID_STATION''
        else ''TRAIN_SEARCH_NO_RESULTS'')
       (get_error_message
          (if contains word_station (str x) then ''TRAIN_SEARCH_INVALID_STATION''
           else ''TRAIN_SEARCH_NO_RESULTS'')))"
  by (simp add: search_trains_def)

lemma never_login_required:
  "\<not> login_required (search_trains found)"
  "\<not> login_required (reserve last_trains train_index made)"
  "\<not> login_required (reserve_standby last_trains train_index made)"
  by (simp_all add: search_trains_def reserve_def reserve_standby_def Let_def
      split: outcome.splits option.splits)

text \<open>
  A \<open>RailService\<close> object made by \<open>RailService.create\<close> (lines 271 and 405) has an empty
  cache until it has searched.
\<close>

lemma reserve_without_search:
  "0 \<le> train_index \<Longrightarrow>
     reserve [] train_index made = Raised (RailServiceError ''TRAIN_NOT_FOUND'' train_not_found_message)"
  by (simp add: reserve_def)

text \<open>
  C7 has the engine re-authenticate once and repeat the call when a provider call of
  the loop raises the re-authentication condition. The code does not: \<open>search_trains\<close>,
  \<open>reserve\<close> and \<open>reserve_standby\<close> catch every \<open>Exception\<close> of their body and raise a
  \<open>RailServiceError\<close> in its place, so that no call of the loop is answered with the
  condition; and in a run in which no call is answered with it, the engine never calls
  \<open>login\<close>.
\<close>

theorem reauthentication_unreachable:
  "\<not> login_required (search_trains found)
   \<and> \<not> login_required (reserve last_trains train_index made)
   \<and> \<not> login_required (reserve_standby last_trains train_index made)
   \<and> (\<not> list_ex condition_seen evs \<longrightarrow> \<not> list_ex is_login (trace h evs e))"
  using no_login_trace [of evs h e]
  by (simp add: never_login_required no_login_def)

definition login_error :: exn where
  "login_error = LoginRequired ''login required''"

definition polling :: "event list" where
  "polling =
     [Resume 103 (search_trains (Raises login_error)), Resume 104 Completed,
      Resume 105 (search_trains (Raises login_error))]"

definition refused :: "event list" where
  "refused = [Resume 106 (reserve [general_train] 0 (Raises login_error)), Resume 107 Completed]"

lemmas rail_service_eval =
  search_trains_def reserve_def reserve_standby_def login_error_def word_station_def
  word_sold_out_def word_seats_left_def word_duplicate_def word_already_def

lemma login_error_answers:
  "search_trains (Raises login_error) =
     Raised (RailServiceError ''TRAIN_SEARCH_NO_RESULTS''
               (get_error_message ''TRAIN_SEARCH_NO_RESULTS''))"
  "reserve [general_train] 0 (Raises login_error) =
     Raised (RailServiceError ''RESERVE_FAILED'' (get_error_message ''RESERVE_FAILED''))"
  by (simp_all add: rail_service_eval py_index_def)

text \<open>
  The client raises the condition on a search: the loop sees \<open>TRAIN_SEARCH_NO_RESULTS\<close>,
  sleeps and searches again with the same client, for as long as the condition lasts.
  The client raises it on a reservation: the loop sees \<open>RESERVE_FAILED\<close> and the job ends
  \<open>FAILED\<close> with that message. Neither run calls \<open>login\<close> or touches the session.
\<close>

theorem reauthentication_unreachable_witness:
  "search_trains (Raises login_error)
     = Raised (RailServiceError ''TRAIN_SEARCH_NO_RESULTS''
                 (get_error_message ''TRAIN_SEARCH_NO_RESULTS''))
   \<and> \<not> list_ex condition_seen polling
   \<and> \<not> list_ex is_login (trace reversing_handler polling waiting_search)
   \<and> trace reversing_handler polling waiting_search = [Sleep, SearchTrains, Sleep]
   \<and> status (job (exec reversing_handler polling waiting_search)) = RUNNING
   \<and> session (exec reversing_handler polling waiting_search) = session waiting_search
   \<and> reserve [general_train] 0 (Raises login_error)
       = Raised (RailServiceError ''RESERVE_FAILED'' (get_error_message ''RESERVE_FAILED''))
   \<and> \<not> list_ex condition_seen refused
   \<and> \<not> list_ex is_login (trace reversing_handler refused waiting_reserve)
   \<and> status (job (exec reversing_handler refused waiting_reserve)) = FAILED
   \<and> error (job (exec reversing_handler refused waiting_reserve))
       = Some (get_error_message ''RESERVE_FAILED'')
   \<and> session (exec reversing_handler refused waiting_reserve) = session waiting_reserve"
proof -
  have p: "\<not> list_ex condition_seen polling" and r: "\<not> list_ex condition_seen refused"
    by (simp_all add: polling_def refused_def login_error_answers)
  have s: "task_pc waiting_search = AwaitSearch" "\<not> must_cancel waiting_search"
    and v: "task_pc waiting_reserve = AwaitReserve [general_train] [] 0 False"
      "\<not> must_cancel waiting_reserve"
    by (simp_all add: waiting_search_state waiting_reserve_state)
  have t: "trace reversing_handler polling waiting_search = [Sleep, SearchTrains, Sleep]"
    "status (job (exec reversing_handler polling waiting_search)) = RUNNING"
    "session (exec reversing_handler polling waiting_search) = session waiting_search"
    by (simp_all add: polling_def login_error_answers engine_eval s)
       (simp_all add: waiting_search_def engine_eval example_defs)
  have u: "status (job (exec reversing_handler refused waiting_reserve)) = FAILED"
    "error (job (exec reversing_handler refused waiting_reserve))
       = Some (get_error_message ''RESERVE_FAILED'')"
    "session (exec reversing_handler refused waiting_reserve) = session waiting_reserve"
    by (simp_all add: refused_def login_error_answers engine_eval v)
  from reauthentication_unreachable [where evs = polling and h = reversing_handler
      and e = waiting_search] p
  have a: "\<not> list_ex is_login (trace reversing_handler polling waiting_search)"
    by simp
  from reauthentication_unreachable [where evs = refused and h = reversing_handler
      and e = waiting_reserve] r
  have b: "\<not> list_ex is_login (trace reversing_handler refused waiting_reserve)"
    by simp
  from p r t u a b show ?thesis
    by (simp add: login_error_answers del: trace.simps)
qed

end
